theory Spec2Isabelle
  imports Main "HOL-Library.AList" "HOL-Library.Char_ord" "HOL-Library.List_Lexorder"
begin

section \<open>Common Python notions\<close>

text \<open>
  Errors of the compiler are values. A \<open>CodeError\<close> and an \<open>InternalError\<close> carry their
  message and an optional source location; the location is only carried, never inspected,
  so its type is a parameter. Where the source formats a message with the f-string debug
  specifier (\<open>{name=}\<close>), the message holds the literal text before the first such field
  and \<open>debug_fields\<close> holds the fields in order, unrendered (\<open>None\<close> for Python's None).
  \<open>IndexError\<close> and \<open>AssertionError\<close> are Python's own exceptions.
\<close>

datatype 'loc error =
    CodeError (message: string) (debug_fields: "(string \<times> string option) list")
      (location: "'loc option")
  | InternalError (message: string) (debug_fields: "(string \<times> string option) list")
      (location: "'loc option")
  | IndexError
  | AssertionError (message: string)

text \<open>\<open>sep.join(xs)\<close> of Python.\<close>

fun join :: "string \<Rightarrow> string list \<Rightarrow> string" where
  "join sep [] = []"
| "join sep [x] = x"
| "join sep (x # y # ys) = x @ sep @ join sep (y # ys)"

text \<open>\<open>str(n)\<close> of a Python int, in decimal.\<close>

function str_nat :: "nat \<Rightarrow> string" where
  "str_nat k =
     (if k < 10 then [char_of (48 + k)] else str_nat (k div 10) @ [char_of (48 + k mod 10)])"
  by pat_completeness auto
termination
  by (relation "measure id") auto

declare str_nat.simps [simp del]

definition str_int :: "int \<Rightarrow> string" where
  "str_int i = (if i < 0 then CHR ''-'' # str_nat (nat (- i)) else str_nat (nat i))"

section \<open>Wire types (puya/awst/wtypes.py)\<close>

datatype avm_type = AVM_bytes | AVM_uint64

text \<open>
  \<open>constants.TransactionType\<close> is an enum of transaction kinds declared outside the files
  at hand; only the \<open>name\<close> of a member is used.
\<close>

datatype transaction_type = TransactionType (tt_name: string)

text \<open>
  One constructor per attrs class, with the fields of the class in declaration order:
  the four fields of \<open>WType\<close> first (name, scalar_type, ephemeral, immutable), then the
  fields the subclass adds. For the ARC4 classes these start with arc4_name, decode_type
  and the private collection \<open>_other_encodeable_types\<close>. A \<open>Mapping\<close> of fields is an
  association list in insertion order. The bit size and precision of \<open>ARC4UIntN\<close> and
  \<open>ARC4UFixedNxM\<close> (fields \<open>n\<close>, \<open>m\<close>) have no selector here.
\<close>

datatype wtype =
    WType (name: string) (scalar_type: "avm_type option") (ephemeral: bool) (immutable: bool)
  | WGroupTransaction (name: string) (scalar_type: "avm_type option") (ephemeral: bool)
      (immutable: bool) (transaction_type: "transaction_type option")
  | WInnerTransactionFields (name: string) (scalar_type: "avm_type option") (ephemeral: bool)
      (immutable: bool) (transaction_type: "transaction_type option")
  | WInnerTransaction (name: string) (scalar_type: "avm_type option") (ephemeral: bool)
      (immutable: bool) (transaction_type: "transaction_type option")
  | WStructType (name: string) (scalar_type: "avm_type option") (ephemeral: bool)
      (immutable: bool) (fields: "(string \<times> wtype) list")
  | WArray (name: string) (scalar_type: "avm_type option") (ephemeral: bool)
      (immutable: bool) (element_type: wtype)
  | WTuple (name: string) (scalar_type: "avm_type option") (ephemeral: bool)
      (immutable: bool) (types: "wtype list")
  | ARC4Type (name: string) (scalar_type: "avm_type option") (ephemeral: bool)
      (immutable: bool) (arc4_name: string) (decode_type: "wtype option")
      (other_encodeable_types: "wtype list")
  | ARC4UIntN (name: string) (scalar_type: "avm_type option") (ephemeral: bool)
      (immutable: bool) (arc4_name: string) (decode_type: "wtype option")
      (other_encodeable_types: "wtype list") int
  | ARC4UFixedNxM (name: string) (scalar_type: "avm_type option") (ephemeral: bool)
      (immutable: bool) (arc4_name: string) (decode_type: "wtype option")
      (other_encodeable_types: "wtype list") int int
  | ARC4Tuple (name: string) (scalar_type: "avm_type option") (ephemeral: bool)
      (immutable: bool) (arc4_name: string) (decode_type: "wtype option")
      (other_encodeable_types: "wtype list") (types: "wtype list")
  | ARC4DynamicArray (name: string) (scalar_type: "avm_type option") (ephemeral: bool)
      (immutable: bool) (arc4_name: string) (decode_type: "wtype option")
      (other_encodeable_types: "wtype list") (element_type: wtype)
  | ARC4StaticArray (name: string) (scalar_type: "avm_type option") (ephemeral: bool)
      (immutable: bool) (arc4_name: string) (decode_type: "wtype option")
      (other_encodeable_types: "wtype list") (element_type: wtype) (array_size: int)
  | ARC4Struct (name: string) (scalar_type: "avm_type option") (ephemeral: bool)
      (immutable: bool) (arc4_name: string) (decode_type: "wtype option")
      (other_encodeable_types: "wtype list") (fields: "(string \<times> wtype) list")

text \<open>\<open>isinstance(t, ARC4Type)\<close>: the class \<open>ARC4Type\<close> or one of its subclasses.\<close>

fun is_ARC4Type :: "wtype \<Rightarrow> bool" where
  "is_ARC4Type (ARC4Type _ _ _ _ _ _ _) = True"
| "is_ARC4Type (ARC4UIntN _ _ _ _ _ _ _ _) = True"
| "is_ARC4Type (ARC4UFixedNxM _ _ _ _ _ _ _ _ _) = True"
| "is_ARC4Type (ARC4Tuple _ _ _ _ _ _ _ _) = True"
| "is_ARC4Type (ARC4DynamicArray _ _ _ _ _ _ _ _) = True"
| "is_ARC4Type (ARC4StaticArray _ _ _ _ _ _ _ _ _) = True"
| "is_ARC4Type (ARC4Struct _ _ _ _ _ _ _ _) = True"
| "is_ARC4Type _ = False"

text \<open>
  The equality attrs generates compares the class and every field but \<open>arc4_name\<close>
  (declared \<open>eq=False\<close>), and compares field values with their own equality: nested wtypes
  again without \<open>arc4_name\<close>, field mappings as dictionaries (whatever the insertion
  order). \<open>eq_key\<close> computes the value that equality compares: it blanks every
  \<open>arc4_name\<close> and orders field mappings by key.
\<close>

primrec eq_key :: "wtype \<Rightarrow> wtype" where
  "eq_key (WType nm st ep im) = WType nm st ep im"
| "eq_key (WGroupTransaction nm st ep im tt) = WGroupTransaction nm st ep im tt"
| "eq_key (WInnerTransactionFields nm st ep im tt) = WInnerTransactionFields nm st ep im tt"
| "eq_key (WInnerTransaction nm st ep im tt) = WInnerTransaction nm st ep im tt"
| "eq_key (WStructType nm st ep im fs) =
     WStructType nm st ep im (sort_key fst (map (map_prod id eq_key) fs))"
| "eq_key (WArray nm st ep im el) = WArray nm st ep im (eq_key el)"
| "eq_key (WTuple nm st ep im ts) = WTuple nm st ep im (map eq_key ts)"
| "eq_key (ARC4Type nm st ep im an dt oe) =
     ARC4Type nm st ep im [] (map_option eq_key dt) (map eq_key oe)"
| "eq_key (ARC4UIntN nm st ep im an dt oe k) =
     ARC4UIntN nm st ep im [] (map_option eq_key dt) (map eq_key oe) k"
| "eq_key (ARC4UFixedNxM nm st ep im an dt oe k p) =
     ARC4UFixedNxM nm st ep im [] (map_option eq_key dt) (map eq_key oe) k p"
| "eq_key (ARC4Tuple nm st ep im an dt oe ts) =
     ARC4Tuple nm st ep im [] (map_option eq_key dt) (map eq_key oe) (map eq_key ts)"
| "eq_key (ARC4DynamicArray nm st ep im an dt oe el) =
     ARC4DynamicArray nm st ep im [] (map_option eq_key dt) (map eq_key oe) (eq_key el)"
| "eq_key (ARC4StaticArray nm st ep im an dt oe el sz) =
     ARC4StaticArray nm st ep im [] (map_option eq_key dt) (map eq_key oe) (eq_key el) sz"
| "eq_key (ARC4Struct nm st ep im an dt oe fs) =
     ARC4Struct nm st ep im [] (map_option eq_key dt) (map eq_key oe)
       (sort_key fst (map (map_prod id eq_key) fs))"

definition wtype_eq :: "wtype \<Rightarrow> wtype \<Rightarrow> bool" where
  "wtype_eq a b = (eq_key a = eq_key b)"


subsection \<open>The module-level types and the constructors\<close>

definition void_wtype :: wtype where
  "void_wtype = WType ''void'' None False True"

definition bool_wtype :: wtype where
  "bool_wtype = WType ''bool'' (Some AVM_uint64) False True"

definition uint64_wtype :: wtype where
  "uint64_wtype = WType ''uint64'' (Some AVM_uint64) False True"

definition biguint_wtype :: wtype where
  "biguint_wtype = WType ''biguint'' (Some AVM_bytes) False True"

definition bytes_wtype :: wtype where
  "bytes_wtype = WType ''bytes'' (Some AVM_bytes) False True"

definition string_wtype :: wtype where
  "string_wtype = WType ''string'' (Some AVM_bytes) False True"

definition account_wtype :: wtype where
  "account_wtype = WType ''account'' (Some AVM_bytes) False True"

text \<open>
  \<open>WTuple.__init__\<close>. \<open>void_wtype in types\<close> compares with the generated equality.
\<close>

definition WTuple_init :: "wtype list \<Rightarrow> 'loc option \<Rightarrow> 'loc error + wtype" where
  "WTuple_init ts source_location =
     (if ts = [] then Inl (CodeError ''tuple needs types'' [] source_location)
      else if list_ex (wtype_eq void_wtype) ts
        then Inl (CodeError ''tuple should not contain void types'' [] source_location)
      else Inr (WTuple (''tuple<'' @ join '','' (map name ts) @ ''>'') None False True ts))"

definition arc4_bool_wtype :: wtype where
  "arc4_bool_wtype =
     ARC4Type ''arc4.bool'' (Some AVM_bytes) False True ''bool'' (Some bool_wtype) []"

text \<open>
  \<open>ARC4UIntN.__init__\<close>; \<open>alias or default_arc4_name\<close> takes the default for \<open>None\<close> and
  for the empty string. The frozenset of other encodeable types is the list of its three
  members.
\<close>

definition ARC4UIntN_init ::
  "int \<Rightarrow> 'loc option \<Rightarrow> wtype \<Rightarrow> string option \<Rightarrow> 'loc error + wtype" where
  "ARC4UIntN_init k source_location decode alias =
     (if \<not> (k mod 8 = 0)
        then Inl (CodeError ''Bit size must be multiple of 8'' [] source_location)
      else if \<not> (8 \<le> k \<and> k \<le> 512)
        then Inl (CodeError ''Bit size must be between 8 and 512 inclusive'' []
               source_location)
      else if wtype_eq decode uint64_wtype \<and> k > 64
        then Inl (InternalError ''TODO'' [] source_location)
      else if \<not> wtype_eq decode uint64_wtype \<and> \<not> wtype_eq decode biguint_wtype
        then Inl (InternalError ''TODO'' [] source_location)
      else
        (let default_arc4_name = ''uint'' @ str_int k;
             an = (case alias of None \<Rightarrow> default_arc4_name
                   | Some a \<Rightarrow> if a = [] then default_arc4_name else a)
         in Inr (ARC4UIntN (''arc4.'' @ default_arc4_name) (Some AVM_bytes) False True an
                   (Some decode) [bool_wtype, uint64_wtype, biguint_wtype] k)))"

text \<open>
  \<open>ARC4Tuple.__init__\<close>: the loop over \<open>enumerate(types)\<close> carries the index, the
  immutability so far and the ARC4 types collected so far.
\<close>

fun ARC4Tuple_loop ::
  "'loc option \<Rightarrow> nat \<Rightarrow> wtype list \<Rightarrow> bool \<Rightarrow> wtype list \<Rightarrow> 'loc error + (bool \<times> wtype list)"
  where
  "ARC4Tuple_loop source_location typ_idx [] imm arc4_types = Inr (imm, arc4_types)"
| "ARC4Tuple_loop source_location typ_idx (typ # rest) imm arc4_types =
     (if \<not> is_ARC4Type typ
        then Inl (CodeError (''Invalid ARC4 Tuple type: type at index '' @ str_nat typ_idx
                    @ '' is not an ARC4 encoded type'') [] source_location)
      else ARC4Tuple_loop source_location (Suc typ_idx) rest (imm \<and> immutable typ)
             (arc4_types @ [typ]))"

definition ARC4Tuple_init :: "wtype list \<Rightarrow> 'loc option \<Rightarrow> 'loc error + wtype" where
  "ARC4Tuple_init ts source_location =
     (if ts = [] then Inl (CodeError ''ARC4 Tuple cannot be empty'' [] source_location)
      else
        (case ARC4Tuple_loop source_location 0 ts True [] of
           Inl e \<Rightarrow> Inl e
         | Inr (imm, arc4_types) \<Rightarrow>
             (case WTuple_init ts source_location of
                Inl e \<Rightarrow> Inl e
              | Inr native_type \<Rightarrow>
                  Inr (ARC4Tuple (''arc4.tuple<'' @ join '','' (map name ts) @ ''>'')
                         (Some AVM_bytes) False imm
                         (''('' @ join '','' (map arc4_name arc4_types) @ '')'')
                         (Some native_type) [] arc4_types))))"

text \<open>\<open>ARC4DynamicArray.__init__\<close>, with its keyword arguments in the order declared.\<close>

definition ARC4DynamicArray_init ::
  "wtype \<Rightarrow> 'loc option \<Rightarrow> string option \<Rightarrow> wtype option \<Rightarrow> bool \<Rightarrow> 'loc error + wtype" where
  "ARC4DynamicArray_init el source_location alias native_type imm =
     (if \<not> is_ARC4Type el
        then Inl (CodeError ''ARC4 arrays must have ARC4 encoded element type'' []
               source_location)
      else
        (let an = (case alias of None \<Rightarrow> arc4_name el @ ''[]''
                   | Some a \<Rightarrow> if a = [] then arc4_name el @ ''[]'' else a)
         in Inr (ARC4DynamicArray (''arc4.dynamic_array<'' @ name el @ ''>'') (Some AVM_bytes)
                   False imm an native_type [] el)))"

text \<open>
  \<open>ARC4Struct.__init__\<close>: the loop over \<open>fields.items()\<close> carries the dictionary
  \<open>arc4_fields\<close> (an assignment keeps the place of a key already there), the list
  \<open>bad_field_names\<close> and the immutability so far.
\<close>

fun ARC4Struct_loop ::
  "(string \<times> wtype) list \<Rightarrow> (string \<times> wtype) list \<Rightarrow> string list \<Rightarrow> bool
     \<Rightarrow> (string \<times> wtype) list \<times> string list \<times> bool" where
  "ARC4Struct_loop [] arc4_fields bad_field_names imm = (arc4_fields, bad_field_names, imm)"
| "ARC4Struct_loop ((field_name, field_wtype) # rest) arc4_fields bad_field_names imm =
     (if \<not> is_ARC4Type field_wtype
        then ARC4Struct_loop rest arc4_fields (bad_field_names @ [field_name]) imm
      else ARC4Struct_loop rest (AList.update field_name field_wtype arc4_fields)
             bad_field_names (imm \<and> immutable field_wtype))"

definition ARC4Struct_init ::
  "(string \<times> wtype) list \<Rightarrow> string \<Rightarrow> bool \<Rightarrow> 'loc option \<Rightarrow> 'loc error + wtype" where
  "ARC4Struct_init fs nm imm source_location =
     (if fs = []
        then Inl (CodeError ''arc4.Struct needs at least one element'' [] source_location)
      else
        (case ARC4Struct_loop fs [] [] imm of
           (arc4_fields, bad_field_names, imm') \<Rightarrow>
             if bad_field_names \<noteq> []
               then Inl (CodeError
                      (''Invalid ARC4 Struct declaration, the following fields are not ARC4 encoded types: ''
                         @ join '', '' bad_field_names) [] source_location)
             else
               (case ARC4Tuple_init (map snd arc4_fields) source_location of
                  Inl e \<Rightarrow> Inl e
                | Inr tup \<Rightarrow>
                    Inr (ARC4Struct nm (Some AVM_bytes) False imm' (arc4_name tup) None []
                           arc4_fields))))"

text \<open>
  The module-level ARC4 types are built by the constructors with \<open>source_location=None\<close>;
  none of these calls raises (lemmas \<open>arc4_byte_alias_built\<close> and
  \<open>arc4_string_wtype_built\<close> below).
\<close>

definition arc4_byte_alias :: wtype where
  "arc4_byte_alias =
     projr (ARC4UIntN_init 8 (None :: unit option) uint64_wtype (Some ''byte''))"

definition arc4_string_wtype :: wtype where
  "arc4_string_wtype =
     projr (ARC4DynamicArray_init arc4_byte_alias (None :: unit option) (Some ''string'')
              (Some string_wtype) True)"

text \<open>
  \<open>avm_to_arc4_equivalent_type\<close>. The source tests identity with the module-level objects
  (\<open>wtype is bool_wtype\<close>), which a value does not have: \<open>is_object wt c\<close> stands for
  \<open>wt is c\<close> and is a parameter. The tests come in the order of the source, the tuple
  case after them. The generator handed to \<open>ARC4Tuple\<close> is consumed by \<open>tuple(types)\<close>
  first, so the first element that raises ends the call.
\<close>

fun sequence_sum :: "('e + 'a) list \<Rightarrow> 'e + 'a list" where
  "sequence_sum [] = Inr []"
| "sequence_sum (Inl e # _) = Inl e"
| "sequence_sum (Inr x # rest) =
     (case sequence_sum rest of Inl e \<Rightarrow> Inl e | Inr xs \<Rightarrow> Inr (x # xs))"

fun avm_to_arc4_equivalent_type ::
  "(wtype \<Rightarrow> wtype \<Rightarrow> bool) \<Rightarrow> wtype \<Rightarrow> 'loc error + wtype" where
  "avm_to_arc4_equivalent_type is_object wt =
     (if is_object wt bool_wtype then Inr arc4_bool_wtype
      else if is_object wt uint64_wtype then ARC4UIntN_init 64 None wt None
      else if is_object wt biguint_wtype then ARC4UIntN_init 512 None wt None
      else if is_object wt bytes_wtype
        then ARC4DynamicArray_init arc4_byte_alias None None (Some wt) False
      else if is_object wt string_wtype then Inr arc4_string_wtype
      else
        (case wt of
           WTuple nm st ep im ts \<Rightarrow>
             (case sequence_sum
                     (map (\<lambda>t. if is_ARC4Type t then Inr t
                               else avm_to_arc4_equivalent_type is_object t) ts) of
                Inl e \<Rightarrow> Inl e
              | Inr ts' \<Rightarrow> ARC4Tuple_init ts' None)
         | _ \<Rightarrow>
             Inl (InternalError (name wt @ '' does not have an arc4 equivalent type'') []
                    None)))"

text \<open>
  The type \<open>avm_to_arc4_equivalent_type\<close> returns for the module-level object
  \<open>bytes_wtype\<close>: among the five module-level objects tested, which have five different
  values, the object is the one with its value.
\<close>

definition arc4_dynamic_bytes :: wtype where
  "arc4_dynamic_bytes =
     projr (avm_to_arc4_equivalent_type (=) bytes_wtype :: unit error + wtype)"

subsection \<open>Facts about the constructors\<close>

lemma arc4_byte_alias_built:
  "ARC4UIntN_init 8 (None :: unit option) uint64_wtype (Some ''byte'') = Inr arc4_byte_alias"
  by code_simp

lemma arc4_string_wtype_built:
  "ARC4DynamicArray_init arc4_byte_alias (None :: unit option) (Some ''string'')
     (Some string_wtype) True = Inr arc4_string_wtype"
  by code_simp

lemma arc4_dynamic_bytes_built:
  "avm_to_arc4_equivalent_type (=) bytes_wtype =
     (Inr arc4_dynamic_bytes :: unit error + wtype)"
  by code_simp

lemma name_eq_key: "name (eq_key a) = name a"
  by (cases a) simp_all

lemma is_ARC4Type_eq_key: "is_ARC4Type (eq_key a) = is_ARC4Type a"
  by (cases a) simp_all

lemma void_not_ARC4Type: "wtype_eq void_wtype t \<Longrightarrow> \<not> is_ARC4Type t"
proof
  assume eq: "wtype_eq void_wtype t" and arc4: "is_ARC4Type t"
  from arc4 have "is_ARC4Type (eq_key t)" by (simp add: is_ARC4Type_eq_key)
  moreover from eq have "eq_key t = WType ''void'' None False True"
    by (simp add: wtype_eq_def void_wtype_def)
  ultimately show False by simp
qed

lemma ARC4Tuple_loop_result:
  "ARC4Tuple_loop loc i ts imm acc = Inr (imm', arc4_types) \<Longrightarrow>
     imm' = (imm \<and> list_all immutable ts) \<and> arc4_types = acc @ ts \<and> list_all is_ARC4Type ts"
proof (induction ts arbitrary: i imm acc)
  case Nil
  then show ?case by simp
next
  case (Cons a ts)
  from Cons.prems have a: "is_ARC4Type a"
    and rest: "ARC4Tuple_loop loc (Suc i) ts (imm \<and> immutable a) (acc @ [a])
                 = Inr (imm', arc4_types)"
    by (auto split: if_splits)
  from Cons.IH[OF rest] a show ?case by auto
qed

lemma ARC4Tuple_loop_total:
  "list_all is_ARC4Type ts \<Longrightarrow>
     ARC4Tuple_loop loc i ts imm acc = Inr (imm \<and> list_all immutable ts, acc @ ts)"
  by (induction ts arbitrary: i imm acc) auto

lemma ARC4Tuple_init_immutable:
  assumes "ARC4Tuple_init ts loc = Inr t"
  shows "immutable t = list_all immutable ts"
  using assms
  by (auto simp: ARC4Tuple_init_def split: if_splits sum.splits dest!: ARC4Tuple_loop_result)

lemma ARC4Struct_loop_result:
  "ARC4Struct_loop fs arc4_fields bad imm = (arc4_fields', bad', imm') \<Longrightarrow>
     bad' = bad @ map fst (filter (\<lambda>(k, w). \<not> is_ARC4Type w) fs) \<and>
     imm' = (imm \<and> list_all (\<lambda>(k, w). immutable w) (filter (\<lambda>(k, w). is_ARC4Type w) fs))"
  by (induction fs arc4_fields bad imm rule: ARC4Struct_loop.induct) (auto split: if_splits)

lemma ARC4Struct_init_immutable:
  assumes "ARC4Struct_init fs nm imm loc = Inr s"
  shows "immutable s = (imm \<and> list_all (\<lambda>(k, w). immutable w) fs)"
proof -
  obtain af bad imm' where loop: "ARC4Struct_loop fs [] [] imm = (af, bad, imm')"
    by (cases "ARC4Struct_loop fs [] [] imm") auto
  from assms loop have bad: "bad = []" and s: "immutable s = imm'"
    by (auto simp: ARC4Struct_init_def split: if_splits sum.splits)
  from ARC4Struct_loop_result[OF loop] bad
  have all: "filter (\<lambda>(k, w). \<not> is_ARC4Type w) fs = []"
    and imm': "imm' = (imm \<and> list_all (\<lambda>(k, w). immutable w)
                                 (filter (\<lambda>(k, w). is_ARC4Type w) fs))"
    by auto
  from all have "filter (\<lambda>(k, w). is_ARC4Type w) fs = fs"
    by (induction fs) (auto split: if_splits)
  with imm' s show ?thesis by simp
qed

subsection \<open>Structural equality and canonical names\<close>

text \<open>
  C3. The claim is that structural equality (which ignores \<open>arc4_name\<close>) holds exactly
  when the canonical names are equal. It fails from right to left: \<open>arc4_string_wtype\<close>
  and the type \<open>avm_to_arc4_equivalent_type\<close> builds for \<open>bytes\<close> are both named
  \<open>arc4.dynamic_array<arc4.uint8>\<close>, and differ in \<open>decode_type\<close> and \<open>immutable\<close>.
\<close>

theorem wtype_eq_iff_name_counterexample:
  "\<not> (wtype_eq arc4_string_wtype arc4_dynamic_bytes
        \<longleftrightarrow> name arc4_string_wtype = name arc4_dynamic_bytes)"
  by code_simp

text \<open>
  C3, as the code has it: structurally equal wtypes have equal canonical names, and two
  \<open>ARC4UIntN\<close> of the same bit size and decode type are equal whatever their aliases
  (so \<open>arc4.byte\<close> equals \<open>arc4.uint8\<close>).
\<close>

theorem wtype_eq_imp_name_eq:
  "(wtype_eq a b \<longrightarrow> name a = name b) \<and>
   (ARC4UIntN_init k loc dt al = Inr u \<and> ARC4UIntN_init k loc' dt al' = Inr u'
      \<longrightarrow> wtype_eq u u')"
proof
  show "wtype_eq a b \<longrightarrow> name a = name b"
  proof
    assume "wtype_eq a b"
    then have "name (eq_key a) = name (eq_key b)" by (simp add: wtype_eq_def)
    then show "name a = name b" by (simp add: name_eq_key)
  qed
next
  show "ARC4UIntN_init k loc dt al = Inr u \<and> ARC4UIntN_init k loc' dt al' = Inr u'
          \<longrightarrow> wtype_eq u u'"
    by (auto simp: ARC4UIntN_init_def wtype_eq_def Let_def split: if_splits)
qed

theorem wtype_eq_imp_name_eq_witness:
  "\<exists>u. ARC4UIntN_init 8 (None :: unit option) uint64_wtype None = Inr u
        \<and> arc4_name u = ''uint8'' \<and> arc4_name arc4_byte_alias = ''byte''
        \<and> wtype_eq arc4_byte_alias u \<and> name arc4_byte_alias = name u"
proof -
  let ?u = "projr (ARC4UIntN_init 8 (None :: unit option) uint64_wtype None)"
  have built: "ARC4UIntN_init 8 (None :: unit option) uint64_wtype None = Inr ?u"
    by code_simp
  have names: "arc4_name ?u = ''uint8''" "arc4_name arc4_byte_alias = ''byte''"
    by code_simp+
  from wtype_eq_imp_name_eq[of arc4_byte_alias ?u 8 "None :: unit option" uint64_wtype
      "Some ''byte''" arc4_byte_alias None None ?u] arc4_byte_alias_built built
  have "wtype_eq arc4_byte_alias ?u \<and> name arc4_byte_alias = name ?u"
    by blast
  with built names show ?thesis by blast
qed

subsection \<open>Immutability of ARC4 aggregates\<close>

text \<open>
  C6. A successfully constructed \<open>ARC4Struct\<close> is immutable exactly when the requested
  flag is set and every field type is immutable; a successfully constructed \<open>ARC4Tuple\<close>
  is immutable exactly when every component type is. In particular a struct declared
  immutable with a mutable field is mutable.
\<close>

theorem arc4_aggregate_immutable:
  "(ARC4Struct_init fs nm imm loc = Inr s \<longrightarrow>
      immutable s = (imm \<and> (\<forall>(k, w) \<in> set fs. immutable w))) \<and>
   (ARC4Tuple_init ts loc = Inr t \<longrightarrow> immutable t = (\<forall>w \<in> set ts. immutable w)) \<and>
   (ARC4Struct_init fs nm True loc = Inr s' \<and> (\<exists>(k, w) \<in> set fs. \<not> immutable w) \<longrightarrow>
      \<not> immutable s')"
  using ARC4Struct_init_immutable[of fs nm imm loc s]
    ARC4Struct_init_immutable[of fs nm True loc s'] ARC4Tuple_init_immutable[of ts loc t]
  by (auto simp: list_all_iff)

theorem arc4_aggregate_immutable_witness:
  "\<exists>s t. ARC4Struct_init [(''a'', arc4_bool_wtype), (''b'', arc4_dynamic_bytes)] ''S'' True
            (None :: unit option) = Inr s
         \<and> \<not> immutable arc4_dynamic_bytes \<and> \<not> immutable s
         \<and> ARC4Tuple_init [arc4_bool_wtype, arc4_string_wtype] (None :: unit option) = Inr t
         \<and> immutable t"
proof -
  let ?fs = "[(''a'', arc4_bool_wtype), (''b'', arc4_dynamic_bytes)]"
  let ?ts = "[arc4_bool_wtype, arc4_string_wtype]"
  let ?s = "projr (ARC4Struct_init ?fs ''S'' True (None :: unit option))"
  let ?t = "projr (ARC4Tuple_init ?ts (None :: unit option))"
  have s: "ARC4Struct_init ?fs ''S'' True (None :: unit option) = Inr ?s"
    by code_simp
  have t: "ARC4Tuple_init ?ts (None :: unit option) = Inr ?t"
    by code_simp
  have flags: "\<not> immutable arc4_dynamic_bytes" "immutable arc4_bool_wtype"
    "immutable arc4_string_wtype"
    by code_simp+
  from arc4_aggregate_immutable[of ?fs "''S''" True "None :: unit option" ?s ?ts ?t ?s] s t flags
  have "\<not> immutable ?s \<and> immutable ?t"
    by simp
  with s t flags show ?thesis by blast
qed

subsection \<open>The decode target of an ARC4 tuple\<close>

text \<open>
  C10. Every successfully constructed \<open>ARC4Tuple\<close> has a decode target, and it is the
  native \<open>WTuple\<close> built from the same component types.
\<close>

theorem arc4_tuple_decode_type:
  "ARC4Tuple_init ts loc = Inr t \<Longrightarrow>
     (\<exists>native. decode_type t = Some native \<and> WTuple_init ts loc = Inr native
                \<and> types native = ts) \<and> types t = ts"
  by (auto simp: ARC4Tuple_init_def WTuple_init_def
      split: if_splits sum.splits dest!: ARC4Tuple_loop_result)

theorem arc4_tuple_decode_type_witness:
  "\<exists>t native. ARC4Tuple_init [arc4_bool_wtype, arc4_string_wtype] (None :: unit option) = Inr t
       \<and> decode_type t = Some native
       \<and> WTuple_init [arc4_bool_wtype, arc4_string_wtype] (None :: unit option) = Inr native
       \<and> types native = [arc4_bool_wtype, arc4_string_wtype]
       \<and> types t = [arc4_bool_wtype, arc4_string_wtype]"
proof -
  let ?ts = "[arc4_bool_wtype, arc4_string_wtype]"
  let ?t = "projr (ARC4Tuple_init ?ts (None :: unit option))"
  have t: "ARC4Tuple_init ?ts (None :: unit option) = Inr ?t"
    by code_simp
  from arc4_tuple_decode_type[OF t] t show ?thesis by blast
qed


section \<open>ARC4 method signatures (puyapy/awst_build/eb/arc4/_utils.py)\<close>

text \<open>
  A Python slice \<open>xs[i:j]\<close>: a negative index counts from the end, and both are clamped
  to the list.
\<close>

definition py_slice :: "'a list \<Rightarrow> int \<Rightarrow> int \<Rightarrow> 'a list" where
  "py_slice xs i j =
     (let len = int (length xs);
          clamp = (\<lambda>k. if k < 0 then max 0 (len + k) else min len k)
      in take (nat (clamp j - clamp i)) (drop (nat (clamp i)) xs))"

text \<open>A diagnostic written with \<open>logger.error\<close>; the message is kept as that of an error.\<close>

datatype 'loc log_entry =
  LogError (log_message: string) (log_fields: "(string \<times> string option) list")
    (log_location: "'loc option")

text \<open>
  \<open>_VALID_NAME_PATTERN.match(name)\<close> for \<open>^[_A-Za-z][A-Za-z0-9_]*$\<close>: in Python's \<open>re\<close>
  the \<open>$\<close> also matches just before a newline that ends the string.
\<close>

definition is_name_start :: "char \<Rightarrow> bool" where
  "is_name_start c =
     (c \<in> set ''_ABCDEFGHIJKLMNOPQRSTUVWXYZabcdefghijklmnopqrstuvwxyz'')"

definition is_name_char :: "char \<Rightarrow> bool" where
  "is_name_char c =
     (c \<in> set ''ABCDEFGHIJKLMNOPQRSTUVWXYZabcdefghijklmnopqrstuvwxyz0123456789_'')"

definition VALID_NAME_PATTERN_match :: "string \<Rightarrow> bool" where
  "VALID_NAME_PATTERN_match s =
     (case s of
        [] \<Rightarrow> False
      | c # cs \<Rightarrow>
          is_name_start c \<and>
          list_all is_name_char (if cs \<noteq> [] \<and> last cs = CHR 0x0A then butlast cs else cs))"

text \<open>
  The loop of \<open>_split_signature\<close> over \<open>enumerate(signature)\<close>; its state is
  \<open>(level, last_idx, name, args, returns)\<close>.
\<close>

type_synonym split_state = "int \<times> int \<times> string \<times> string option \<times> string option"

fun split_step :: "string \<Rightarrow> nat \<times> char \<Rightarrow> split_state \<Rightarrow> split_state" where
  "split_step signature (idx, tok) (level, last_idx, nm, args, returns) =
     (if tok = CHR ''(''
        then (let level' = level + 1 in
              if level' = 1
                then (level', int idx + 1,
                      (if nm = [] then py_slice signature 0 (int idx) else nm), args, returns)
              else (level', last_idx, nm, args, returns))
      else if tok = CHR '')''
        then (let level' = level - 1 in
              if level' = 0
                then (if args = None
                        then (level', int idx + 1, nm,
                              Some (py_slice signature last_idx (int idx)), returns)
                      else if returns = None
                        then (level', int idx + 1, nm, args,
                              Some (py_slice signature (last_idx - 1) (int idx + 1)))
                      else (level', int idx + 1, nm, args, returns))
              else (level', last_idx, nm, args, returns))
      else (level, last_idx, nm, args, returns))"

fun split_loop :: "string \<Rightarrow> (nat \<times> char) list \<Rightarrow> split_state \<Rightarrow> split_state" where
  "split_loop signature [] st = st"
| "split_loop signature (it # rest) st = split_loop signature rest (split_step signature it st)"

definition split_signature ::
  "string \<Rightarrow> 'loc \<Rightarrow> 'loc error + ((string \<times> string option \<times> string option) \<times> 'loc log_entry list)"
  where
  "split_signature signature loc =
     (case split_loop signature (enumerate 0 signature) (0, 0, [], None, None) of
        (level, last_idx, nm, args, returns) \<Rightarrow>
          (let remaining = drop (nat last_idx) signature;
               has_more = (last_idx < int (length signature) \<and> remaining \<noteq> []);
               finish = (\<lambda>nm' returns'.
                  Inr ((nm', args, returns'),
                       (if nm' = [] \<or> \<not> VALID_NAME_PATTERN_match nm'
                          then [LogError ''invalid signature: '' [(''name'', Some nm')] (Some loc)]
                        else [])))
           in if \<not> has_more then finish nm returns
              else if nm = [] then finish remaining returns
              else if args = None
                then Inl (CodeError ''invalid signature, args not well defined: ''
                            [(''name'', Some nm), (''remaining'', Some remaining)] (Some loc))
              else if returns \<noteq> None \<and> returns \<noteq> Some []
                then Inl (CodeError ''invalid signature, text after returns: ''
                            [(''name'', Some nm), (''args'', args), (''returns'', returns),
                             (''remaining'', Some remaining)] (Some loc))
              else finish nm (Some remaining)))"


text \<open>
  Modelled from the spec: \<open>puya.arc4_util.split_tuple_types\<close> is not among the files at
  hand. An argument list is the ARC4 canonical names of the arguments separated by commas,
  a name being possibly a parenthesised tuple: it is split at the commas that stand
  outside every pair of parentheses.
\<close>

fun split_tuple_types_from :: "string \<Rightarrow> int \<Rightarrow> string \<Rightarrow> string list" where
  "split_tuple_types_from [] tuple_level current = [current]"
| "split_tuple_types_from (tok # rest) tuple_level current =
     (let tuple_level' = (if tok = CHR ''('' then tuple_level + 1
                          else if tok = CHR '')'' then tuple_level - 1 else tuple_level)
      in if tok = CHR '','' \<and> tuple_level' = 0
           then current # split_tuple_types_from rest tuple_level' []
         else split_tuple_types_from rest tuple_level' (current @ [tok]))"

definition split_tuple_types :: "string \<Rightarrow> string list" where
  "split_tuple_types types_text = split_tuple_types_from types_text 0 []"

text \<open>
  The types of the front end (\<open>pytypes\<close>) and the tables between them and ARC4 names
  (\<open>arc4_utils\<close>) are declared outside the files at hand; the functions here take them as
  a parameter. \<open>pytype_to_arc4_pytype\<close> answers \<open>Inl bad\<close> where the source calls
  \<open>on_error(bad)\<close>, and \<open>pytype_str\<close> is \<open>str\<close> of a type.
\<close>

record ('pt, 'loc) arc4_utils =
  arc4_to_pytype :: "string \<Rightarrow> 'loc \<Rightarrow> 'loc error + 'pt"
  pytype_to_arc4 :: "'pt \<Rightarrow> 'loc error + string"
  pytype_to_arc4_pytype :: "'pt \<Rightarrow> 'pt + 'pt"
  pytype_str :: "'pt \<Rightarrow> string"
  NoneType :: 'pt
  StrLiteralType :: 'pt
  BytesLiteralType :: 'pt
  IntLiteralType :: 'pt
  ARC4StringType :: 'pt
  ARC4DynamicBytesType :: 'pt
  ARC4UIntN_Aliases_64 :: 'pt

record ('pt, 'loc) ARC4Signature =
  source_location :: "'loc option"
  method_name :: string
  arg_types :: "'pt list"
  return_type :: 'pt

text \<open>
  The constructor attrs generates: the converters of \<open>arg_types\<close> and \<open>return_type\<close> run
  in this order, each through \<open>_pytype_to_arc4_pytype\<close>.
\<close>

definition sig_pytype_to_arc4_pytype ::
  "('pt, 'loc) arc4_utils \<Rightarrow> 'loc option \<Rightarrow> 'pt \<Rightarrow> 'loc error + 'pt" where
  "sig_pytype_to_arc4_pytype env sig_loc typ =
     (case pytype_to_arc4_pytype env typ of
        Inl bad_type \<Rightarrow>
          Inl (CodeError (''invalid return type for an ARC4 method: '' @ pytype_str env bad_type)
                 [] sig_loc)
      | Inr t \<Rightarrow> Inr t)"

definition ARC4Signature_init ::
  "('pt, 'loc) arc4_utils \<Rightarrow> 'loc option \<Rightarrow> string \<Rightarrow> 'pt list \<Rightarrow> 'pt
     \<Rightarrow> 'loc error + ('pt, 'loc) ARC4Signature" where
  "ARC4Signature_init env sig_loc mname arg_tys ret_ty =
     (case sequence_sum (map (sig_pytype_to_arc4_pytype env sig_loc) arg_tys) of
        Inl e \<Rightarrow> Inl e
      | Inr arg_tys' \<Rightarrow>
          (case sig_pytype_to_arc4_pytype env sig_loc ret_ty of
             Inl e \<Rightarrow> Inl e
           | Inr ret_ty' \<Rightarrow>
               Inr \<lparr>source_location = sig_loc, method_name = mname, arg_types = arg_tys',
                     return_type = ret_ty'\<rparr>))"

text \<open>The property \<open>ARC4Signature.method_selector\<close>.\<close>

definition method_selector ::
  "('pt, 'loc) arc4_utils \<Rightarrow> ('pt, 'loc) ARC4Signature \<Rightarrow> 'loc error + string" where
  "method_selector env sg =
     (case sequence_sum (map (pytype_to_arc4 env) (arg_types sg)) of
        Inl e \<Rightarrow> Inl e
      | Inr args \<Rightarrow>
          (case pytype_to_arc4 env (return_type sg) of
             Inl e \<Rightarrow> Inl e
           | Inr ret \<Rightarrow> Inr (method_name sg @ ''('' @ join '','' args @ '')'' @ ret)))"

definition implicit_arc4_type_conversion ::
  "('pt, 'loc) arc4_utils \<Rightarrow> 'pt \<Rightarrow> 'loc \<Rightarrow> 'loc error + 'pt" where
  "implicit_arc4_type_conversion env typ loc =
     (if typ = StrLiteralType env then Inr (ARC4StringType env)
      else if typ = BytesLiteralType env then Inr (ARC4DynamicBytesType env)
      else if typ = IntLiteralType env then Inr (ARC4UIntN_Aliases_64 env)
      else (case pytype_to_arc4_pytype env typ of
              Inl invalid_pytype \<Rightarrow>
                Inl (CodeError (pytype_str env invalid_pytype
                       @ '' is not an ARC4 type and no implicit ARC4 conversion possible'')
                       [] (Some loc))
            | Inr t \<Rightarrow> Inr t))"

text \<open>
  \<open>get_arc4_signature\<close>, from the point where the method is known to be the str literal
  \<open>method_sig\<close> at \<open>method_loc\<close>; the native arguments are given by their types. The
  diagnostics logged so far are returned beside the result, also when the call raises.
\<close>

definition get_arc4_signature ::
  "('pt, 'loc) arc4_utils \<Rightarrow> string \<Rightarrow> 'loc \<Rightarrow> 'pt list \<Rightarrow> 'loc
     \<Rightarrow> ('loc error + (string \<times> ('pt, 'loc) ARC4Signature)) \<times> 'loc log_entry list" where
  "get_arc4_signature env method_sig method_loc native_arg_types loc =
     (case split_signature method_sig method_loc of
        Inl e \<Rightarrow> (Inl e, [])
      | Inr ((mname, maybe_args, maybe_returns), logs) \<Rightarrow>
          (case (case maybe_args of
                   None \<Rightarrow>
                     sequence_sum
                       (map (\<lambda>na. implicit_arc4_type_conversion env na loc) native_arg_types)
                 | Some a \<Rightarrow>
                     if a \<noteq> []
                       then sequence_sum
                              (map (\<lambda>t. arc4_to_pytype env t loc) (split_tuple_types a))
                     else Inr []) of
             Inl e \<Rightarrow> (Inl e, logs)
           | Inr arg_tys \<Rightarrow>
               (case (case maybe_returns of
                        None \<Rightarrow> Inr (NoneType env)
                      | Some r \<Rightarrow> if r \<noteq> [] then arc4_to_pytype env r loc
                                  else Inr (NoneType env)) of
                  Inl e \<Rightarrow> (Inl e, logs)
                | Inr ret_ty \<Rightarrow>
                    (case ARC4Signature_init env (Some loc) mname arg_tys ret_ty of
                       Inl e \<Rightarrow> (Inl e, logs)
                     | Inr sg \<Rightarrow> (Inr (method_sig, sg), logs)))))"

text \<open>
  Modelled from the spec: the code that hashes a method selector is not among the files at
  hand. The 4-byte ABI selector is the first 4 bytes of SHA-512/256 of the canonical
  signature string; the hash function is a parameter.
\<close>

definition abi_method_selector :: "(string \<Rightarrow> 'byte list) \<Rightarrow> string \<Rightarrow> 'byte list" where
  "abi_method_selector sha512_256 canonical = take 4 (sha512_256 canonical)"

lemma split_loop_hello:
  "split_loop ''hello(uint64,string)uint64'' (enumerate 0 ''hello(uint64,string)uint64'')
     (0, 0, [], None, None) = (0, 20, ''hello'', Some ''uint64,string'', None)"
  by code_simp

lemma VALID_NAME_PATTERN_match_hello: "VALID_NAME_PATTERN_match ''hello''"
  by code_simp

lemma split_hello:
  "split_signature ''hello(uint64,string)uint64'' mloc
     = Inr ((''hello'', Some ''uint64,string'', Some ''uint64''), [])"
  unfolding split_signature_def split_loop_hello
  by (simp add: VALID_NAME_PATTERN_match_hello)

lemma split_hello_args: "split_tuple_types ''uint64,string'' = [''uint64'', ''string'']"
  by code_simp

text \<open>
  C4. The signature \<open>hello(uint64,string)uint64\<close> splits into the name \<open>hello\<close>, the
  argument text \<open>uint64,string\<close> and the return text \<open>uint64\<close>; the argument text splits
  into \<open>uint64\<close> and \<open>string\<close>. Where the name tables read these two names as the ARC4
  types and write them back, \<open>get_arc4_signature\<close> builds the signature with these
  argument types and return type without a diagnostic, its \<open>method_selector\<close> is the
  string \<open>hello(uint64,string)uint64\<close>, and the ABI selector is the first 4 bytes of the
  hash of that string.
\<close>

theorem hello_signature:
  assumes "arc4_to_pytype env ''uint64'' loc = Inr arc4_uint64"
    and "arc4_to_pytype env ''string'' loc = Inr arc4_string"
    and "pytype_to_arc4_pytype env arc4_uint64 = Inr arc4_uint64"
    and "pytype_to_arc4_pytype env arc4_string = Inr arc4_string"
    and "pytype_to_arc4 env arc4_uint64 = Inr ''uint64''"
    and "pytype_to_arc4 env arc4_string = Inr ''string''"
  shows "split_signature ''hello(uint64,string)uint64'' mloc
           = Inr ((''hello'', Some ''uint64,string'', Some ''uint64''), []) \<and>
         split_tuple_types ''uint64,string'' = [''uint64'', ''string''] \<and>
         (\<exists>sg. get_arc4_signature env ''hello(uint64,string)uint64'' mloc native_arg_types loc
                  = (Inr (''hello(uint64,string)uint64'', sg), []) \<and>
               method_name sg = ''hello'' \<and> arg_types sg = [arc4_uint64, arc4_string] \<and>
               return_type sg = arc4_uint64 \<and>
               method_selector env sg = Inr ''hello(uint64,string)uint64'' \<and>
               (\<exists>canonical. method_selector env sg = Inr canonical \<and>
                  abi_method_selector sha512_256 canonical
                    = take 4 (sha512_256 ''hello(uint64,string)uint64'')))"
  using assms
  by (simp add: split_hello split_hello_args get_arc4_signature_def ARC4Signature_init_def
      sig_pytype_to_arc4_pytype_def method_selector_def abi_method_selector_def)

definition names_as_pytypes :: "(string, unit) arc4_utils" where
  "names_as_pytypes =
     \<lparr>arc4_to_pytype = (\<lambda>s loc. Inr s), pytype_to_arc4 = Inr, pytype_to_arc4_pytype = Inr,
      pytype_str = id, NoneType = ''void'', StrLiteralType = ''str'',
      BytesLiteralType = ''bytes'', IntLiteralType = ''int'', ARC4StringType = ''string'',
      ARC4DynamicBytesType = ''byte[]'', ARC4UIntN_Aliases_64 = ''uint64''\<rparr>"

theorem hello_signature_witness:
  "split_signature ''hello(uint64,string)uint64'' ()
           = Inr ((''hello'', Some ''uint64,string'', Some ''uint64''), []) \<and>
         split_tuple_types ''uint64,string'' = [''uint64'', ''string''] \<and>
         (\<exists>sg. get_arc4_signature names_as_pytypes ''hello(uint64,string)uint64'' () [] ()
                  = (Inr (''hello(uint64,string)uint64'', sg), []) \<and>
               method_name sg = ''hello'' \<and> arg_types sg = [''uint64'', ''string''] \<and>
               return_type sg = ''uint64'' \<and>
               method_selector names_as_pytypes sg = Inr ''hello(uint64,string)uint64'' \<and>
               (\<exists>canonical. method_selector names_as_pytypes sg = Inr canonical \<and>
                  abi_method_selector (map of_char :: string \<Rightarrow> nat list) canonical
                    = take 4 (map of_char ''hello(uint64,string)uint64'')))"
  using hello_signature[of names_as_pytypes "()" "''uint64''" "''string''" "()" "[]"
      "map of_char :: string \<Rightarrow> nat list"]
  by (simp add: names_as_pytypes_def)

lemma split_loop_abc:
  "split_loop ''(a)b(c)'' (enumerate 0 ''(a)b(c)'') (0, 0, [], None, None)
     = (0, 7, ''(a)b'', Some ''a'', Some ''(c)'')"
  by code_simp

lemma split_loop_abcd:
  "split_loop ''a(b)(c)d'' (enumerate 0 ''a(b)(c)d'') (0, 0, [], None, None)
     = (0, 7, ''a'', Some ''b'', Some ''(c)'')"
  by code_simp

lemma VALID_NAME_PATTERN_no_match_abc: "\<not> VALID_NAME_PATTERN_match ''(a)b''"
  by code_simp

text \<open>
  C5. The claim is that parsing \<open>(a)b(c)\<close> fails with a \<open>CodeError\<close> whose message begins
  \<open>invalid signature, text after returns\<close>. It does not: after the loop nothing remains
  of the string, so no error is raised; \<open>_split_signature\<close> returns the name \<open>(a)b\<close>, the
  arguments \<open>a\<close> and the returns \<open>(c)\<close>, and logs that the name is invalid.
\<close>

theorem split_signature_abc_counterexample:
  "split_signature ''(a)b(c)'' ()
     = Inr ((''(a)b'', Some ''a'', Some ''(c)''),
            [LogError ''invalid signature: '' [(''name'', Some ''(a)b'')] (Some ())])"
  by code_simp

text \<open>
  C5, as the code has it: parsing \<open>(a)b(c)\<close> raises no \<open>CodeError\<close>; it logs the one
  error \<open>invalid signature: name=...\<close> for the name \<open>(a)b\<close> and returns the name \<open>(a)b\<close>,
  the arguments \<open>a\<close> and the returns \<open>(c)\<close>. A signature whose parsing does fail with
  the \<open>CodeError\<close> whose message begins \<open>invalid signature, text after returns\<close> is
  \<open>a(b)(c)d\<close>.
\<close>

theorem split_signature_text_after_returns:
  "split_signature ''(a)b(c)'' loc
     = Inr ((''(a)b'', Some ''a'', Some ''(c)''),
            [LogError ''invalid signature: '' [(''name'', Some ''(a)b'')] (Some loc)]) \<and>
   split_signature ''a(b)(c)d'' loc
     = Inl (CodeError ''invalid signature, text after returns: ''
              [(''name'', Some ''a''), (''args'', Some ''b''), (''returns'', Some ''(c)''),
               (''remaining'', Some ''d'')] (Some loc))"
  unfolding split_signature_def split_loop_abc split_loop_abcd
  by (simp add: VALID_NAME_PATTERN_no_match_abc)

section \<open>Expression builders (puya/awst_build/eb)\<close>

text \<open>
  The interfaces of the builders and the AWST nodes are declared outside the files at
  hand. Modelled from the spec: a \<open>LiteralBuilder\<close> holds a literal whose wire type is not
  committed, with its source location; any other instance builder represents a typed
  value, here its type and the expression \<open>resolve()\<close> gives. The value of a literal is a
  Python constant: an \<open>int\<close>, a \<open>str\<close>, a \<open>bytes\<close> or a \<open>bool\<close>. An expression is one of
  the nodes the builders below construct (each with the arguments the source passes, and
  \<open>Itob_as\<close> for the result of \<open>intrinsic_factory.itob_as\<close>), or any other node.
\<close>

datatype literal_value =
  IntValue int | StrValue string | BytesValue "nat list" | BoolValue bool

text \<open>
  The class pattern \<open>int(x)\<close> of a \<open>match\<close> statement is the test \<open>isinstance(value, int)\<close>.
  As \<open>bool\<close> is a subclass of \<open>int\<close>, a bool matches it too; \<open>True\<close> is the integer 1
  and \<open>False\<close> the integer 0. \<open>None\<close> is no match.
\<close>

fun match_int :: "literal_value \<Rightarrow> int option" where
  "match_int (IntValue i) = Some i"
| "match_int (BoolValue b) = Some (if b then 1 else 0)"
| "match_int (StrValue s) = None"
| "match_int (BytesValue bs) = None"

datatype ('uop, 'loc) expression =
    BigUIntConstant int 'loc
  | BigUIntBinaryOperation 'loc "('uop, 'loc) expression" 'uop "('uop, 'loc) expression"
  | TupleItemExpression "('uop, 'loc) expression" int 'loc
  | Itob_as "('uop, 'loc) expression" wtype 'loc
  | OtherExpression nat

datatype ('uop, 'loc) statement =
  BigUIntAugmentedAssignment 'loc "('uop, 'loc) expression" "('uop, 'loc) expression" 'uop

datatype ('pt, 'uop, 'loc) instance_builder =
    LiteralBuilder literal_value 'loc
  | InstanceBuilder 'pt "('uop, 'loc) expression"

text \<open>What a binary operator method returns: the sentinel \<open>NotImplemented\<close> or a builder.\<close>

datatype ('pt, 'uop, 'loc) binary_op_result =
    NotImplemented
  | Built "('pt, 'uop, 'loc) instance_builder"

text \<open>
  A Python subscript \<open>xs[i]\<close> of a sequence: a negative index counts from the end, and
  \<open>None\<close> stands for the \<open>IndexError\<close>.
\<close>

definition py_index :: "'a list \<Rightarrow> int \<Rightarrow> 'a option" where
  "py_index xs i =
     (let len = int (length xs); j = (if i < 0 then len + i else i)
      in if 0 \<le> j \<and> j < len then Some (xs ! nat j) else None)"

subsection \<open>ARC4 tuples (eb/arc4/tuple.py)\<close>

text \<open>
  \<open>ARC4TupleExpressionBuilder.index\<close>: \<open>items\<close> is \<open>self.pytype.items\<close> and \<open>base\<close> is
  \<open>self.resolve()\<close>; the builder \<open>builder_for_instance\<close> returns is the instance builder
  of the item type over the expression. The index of the \<open>TupleItemExpression\<close> is the
  value matched, as an integer.
\<close>

definition ARC4TupleExpressionBuilder_index ::
  "'pt list \<Rightarrow> ('uop, 'loc) expression \<Rightarrow> ('pt, 'uop, 'loc) instance_builder \<Rightarrow> 'loc
     \<Rightarrow> 'loc error + ('pt, 'uop, 'loc) instance_builder" where
  "ARC4TupleExpressionBuilder_index items base index loc =
     (case index of
        LiteralBuilder literal literal_loc \<Rightarrow>
          (case match_int literal of
             Some index_value \<Rightarrow>
               (case py_index items index_value of
                  None \<Rightarrow> Inl (CodeError ''Tuple index out of bounds'' [] (Some literal_loc))
                | Some item_typ \<Rightarrow>
                    Inr (InstanceBuilder item_typ (TupleItemExpression base index_value loc)))
           | None \<Rightarrow>
               Inl (CodeError ''arc4.Tuple can only be indexed by int constants'' [] None))
      | InstanceBuilder typ expr \<Rightarrow>
          Inl (CodeError ''arc4.Tuple can only be indexed by int constants'' [] None))"

text \<open>
  C8. The claim is that indexing an ARC4 tuple with anything other than a compile-time
  integer literal raises a \<open>CodeError\<close>. It fails for a bool literal, which the pattern
  \<open>int(index_value)\<close> matches: indexing a tuple of three items with the literal \<open>True\<close>
  raises nothing and yields the item at index 1.
\<close>

theorem arc4_tuple_index_counterexample:
  "ARC4TupleExpressionBuilder_index [''a'', ''b'', ''c''] (OtherExpression 0 :: (unit, unit) expression)
      (LiteralBuilder (BoolValue True) ()) ()
     = Inr (InstanceBuilder ''b'' (TupleItemExpression (OtherExpression 0) 1 ()))"
  by (simp add: ARC4TupleExpressionBuilder_index_def py_index_def)

text \<open>
  C8, as the code has it. Indexing an ARC4 tuple with anything other than an integer
  literal or a bool literal raises a \<open>CodeError\<close>; a bool literal indexes as the integer
  literal 1 (\<open>True\<close>) or 0 (\<open>False\<close>); an integer literal out of the range of the item
  types raises the \<open>CodeError\<close> \<open>Tuple index out of bounds\<close>; an integer literal \<open>i\<close> in
  range yields the builder of the \<open>i\<close>-th item type over the \<open>TupleItemExpression\<close> of the
  tuple with index \<open>i\<close>. The range and the \<open>i\<close>-th item are those of a Python subscript:
  \<open>i\<close> from \<open>-len\<close> to \<open>len - 1\<close>, a negative \<open>i\<close> counting from the end.
\<close>

theorem arc4_tuple_index:
  "((\<forall>i l. index \<noteq> LiteralBuilder (IntValue i) l) \<and>
    (\<forall>b l. index \<noteq> LiteralBuilder (BoolValue b) l) \<longrightarrow>
      ARC4TupleExpressionBuilder_index items base index loc
        = Inl (CodeError ''arc4.Tuple can only be indexed by int constants'' [] None)) \<and>
   ARC4TupleExpressionBuilder_index items base (LiteralBuilder (BoolValue b) l) loc
     = ARC4TupleExpressionBuilder_index items base
         (LiteralBuilder (IntValue (if b then 1 else 0)) l) loc \<and>
   (\<not> (- int (length items) \<le> i \<and> i < int (length items)) \<longrightarrow>
      ARC4TupleExpressionBuilder_index items base (LiteralBuilder (IntValue i) l) loc
        = Inl (CodeError ''Tuple index out of bounds'' [] (Some l))) \<and>
   (- int (length items) \<le> i \<and> i < int (length items) \<longrightarrow>
      ARC4TupleExpressionBuilder_index items base (LiteralBuilder (IntValue i) l) loc
        = Inr (InstanceBuilder (items ! nat (if i < 0 then int (length items) + i else i))
                 (TupleItemExpression base i loc)))"
proof (intro conjI impI)
  assume other: "(\<forall>i l. index \<noteq> LiteralBuilder (IntValue i) l) \<and>
                 (\<forall>b l. index \<noteq> LiteralBuilder (BoolValue b) l)"
  show "ARC4TupleExpressionBuilder_index items base index loc
          = Inl (CodeError ''arc4.Tuple can only be indexed by int constants'' [] None)"
  proof (cases index)
    case (LiteralBuilder literal literal_loc)
    with other have "match_int literal = None"
      by (cases literal) auto
    with LiteralBuilder show ?thesis
      by (simp add: ARC4TupleExpressionBuilder_index_def)
  next
    case (InstanceBuilder pytype expr)
    then show ?thesis
      by (simp add: ARC4TupleExpressionBuilder_index_def)
  qed
next
  show "ARC4TupleExpressionBuilder_index items base (LiteralBuilder (BoolValue b) l) loc
          = ARC4TupleExpressionBuilder_index items base
              (LiteralBuilder (IntValue (if b then 1 else 0)) l) loc"
    by (simp add: ARC4TupleExpressionBuilder_index_def)
next
  assume "\<not> (- int (length items) \<le> i \<and> i < int (length items))"
  then show "ARC4TupleExpressionBuilder_index items base (LiteralBuilder (IntValue i) l) loc
               = Inl (CodeError ''Tuple index out of bounds'' [] (Some l))"
    by (auto simp: ARC4TupleExpressionBuilder_index_def py_index_def Let_def)
next
  assume "- int (length items) \<le> i \<and> i < int (length items)"
  then show "ARC4TupleExpressionBuilder_index items base (LiteralBuilder (IntValue i) l) loc
               = Inr (InstanceBuilder
                        (items ! nat (if i < 0 then int (length items) + i else i))
                        (TupleItemExpression base i loc))"
    by (auto simp: ARC4TupleExpressionBuilder_index_def py_index_def Let_def)
qed

theorem arc4_tuple_index_witness:
  "ARC4TupleExpressionBuilder_index [''a'', ''b'', ''c''] (OtherExpression 0 :: (unit, unit) expression)
      (InstanceBuilder ''uint64'' (OtherExpression 1)) ()
     = Inl (CodeError ''arc4.Tuple can only be indexed by int constants'' [] None) \<and>
   ARC4TupleExpressionBuilder_index [''a'', ''b'', ''c''] (OtherExpression 0 :: (unit, unit) expression)
      (LiteralBuilder (StrValue ''1'') ()) ()
     = Inl (CodeError ''arc4.Tuple can only be indexed by int constants'' [] None) \<and>
   ARC4TupleExpressionBuilder_index [''a'', ''b'', ''c''] (OtherExpression 0 :: (unit, unit) expression)
      (LiteralBuilder (IntValue 3) ()) ()
     = Inl (CodeError ''Tuple index out of bounds'' [] (Some ())) \<and>
   ARC4TupleExpressionBuilder_index [''a'', ''b'', ''c''] (OtherExpression 0 :: (unit, unit) expression)
      (LiteralBuilder (IntValue 1) ()) ()
     = Inr (InstanceBuilder ''b'' (TupleItemExpression (OtherExpression 0) 1 ())) \<and>
   ARC4TupleExpressionBuilder_index [''a'', ''b'', ''c''] (OtherExpression 0 :: (unit, unit) expression)
      (LiteralBuilder (IntValue (- 1)) ()) ()
     = Inr (InstanceBuilder ''c'' (TupleItemExpression (OtherExpression 0) (- 1) ())) \<and>
   ARC4TupleExpressionBuilder_index [''a'', ''b'', ''c''] (OtherExpression 0 :: (unit, unit) expression)
      (LiteralBuilder (BoolValue False) ()) ()
     = Inr (InstanceBuilder ''a'' (TupleItemExpression (OtherExpression 0) 0 ()))"
  using arc4_tuple_index[where index = "InstanceBuilder ''uint64'' (OtherExpression 1)"
      and items = "[''a'', ''b'', ''c'']"
      and base = "OtherExpression 0 :: (unit, unit) expression"
      and loc = "()" and i = 3 and l = "()" and b = False]
    arc4_tuple_index[where index = "LiteralBuilder (StrValue ''1'') ()"
      and items = "[''a'', ''b'', ''c'']"
      and base = "OtherExpression 0 :: (unit, unit) expression"
      and loc = "()" and i = "- 1" and l = "()" and b = False]
    arc4_tuple_index[where index = "InstanceBuilder ''uint64'' (OtherExpression 1)"
      and items = "[''a'', ''b'', ''c'']"
      and base = "OtherExpression 0 :: (unit, unit) expression"
      and loc = "()" and i = 1 and l = "()" and b = False]
    arc4_tuple_index[where index = "InstanceBuilder ''uint64'' (OtherExpression 1)"
      and items = "[''a'', ''b'', ''c'']"
      and base = "OtherExpression 0 :: (unit, unit) expression"
      and loc = "()" and i = 0 and l = "()" and b = False]
  by simp

subsection \<open>BigUInt (eb/biguint.py)\<close>

text \<open>
  The front-end types, the enums \<open>BuilderBinaryOp\<close> and \<open>BigUIntBinaryOperator\<close> and the
  method \<open>resolve_lvalue\<close> of the builders' base class are declared outside the files at
  hand, and are a parameter: the two types and the two members of \<open>BuilderBinaryOp\<close> the
  builder names, \<open>str\<close> of a type, the \<open>value\<close> of a member, the lookup of a
  \<open>BigUIntBinaryOperator\<close> by value (\<open>None\<close> for the \<open>ValueError\<close>), and \<open>resolve_lvalue\<close>
  of a builder over an expression.
\<close>

record ('pt, 'bop, 'uop, 'loc) eb_env =
  BigUIntType :: 'pt
  UInt64Type :: 'pt
  pytype_name :: "'pt \<Rightarrow> string"
  BuilderBinaryOp_div :: 'bop
  BuilderBinaryOp_floor_div :: 'bop
  BuilderBinaryOp_value :: "'bop \<Rightarrow> string"
  BigUIntBinaryOperator :: "string \<Rightarrow> 'uop option"
  resolve_lvalue :: "('uop, 'loc) expression \<Rightarrow> 'loc error + ('uop, 'loc) expression"

text \<open>
  \<open>BigUIntTypeBuilder.convert_literal\<close>: the value matched by \<open>int(int_value)\<close> is cast
  with \<open>int\<close>. The message of the error is its text before the formatted literal.
\<close>

definition BigUIntTypeBuilder_convert_literal ::
  "('pt, 'bop, 'uop, 'loc) eb_env \<Rightarrow> literal_value \<Rightarrow> 'loc
     \<Rightarrow> 'loc error + ('pt, 'uop, 'loc) instance_builder" where
  "BigUIntTypeBuilder_convert_literal env lit loc =
     (case match_int lit of
        Some int_value \<Rightarrow>
          Inr (InstanceBuilder (BigUIntType env) (BigUIntConstant int_value loc))
      | None \<Rightarrow> Inl (CodeError ''can't covert literal '' [] (Some loc)))"

text \<open>
  Modelled from the spec: \<open>resolve_literal\<close> of a \<open>LiteralBuilder\<close> resolves the literal
  against the converter, which produces a typed builder or fails; any other builder is
  already typed and is returned. The converter here is
  \<open>BigUIntTypeBuilder(other.source_location)\<close>.
\<close>

definition resolve_literal_BigUInt ::
  "('pt, 'bop, 'uop, 'loc) eb_env \<Rightarrow> ('pt, 'uop, 'loc) instance_builder
     \<Rightarrow> 'loc error + ('pt, 'uop, 'loc) instance_builder" where
  "resolve_literal_BigUInt env other =
     (case other of
        LiteralBuilder lit literal_loc \<Rightarrow> BigUIntTypeBuilder_convert_literal env lit literal_loc
      | InstanceBuilder typ expr \<Rightarrow> Inr (InstanceBuilder typ expr))"

definition uint64_to_biguint ::
  "('uop, 'loc) expression \<Rightarrow> 'loc \<Rightarrow> ('uop, 'loc) expression" where
  "uint64_to_biguint arg_in loc = Itob_as arg_in biguint_wtype loc"

definition division_diagnostic :: string where
  "division_diagnostic =
     ''To maintain semantic compatibility with Python, ''
     @ ''only the truncating division operator (//) is supported ''"

text \<open>
  \<open>_translate_biguint_math_operator\<close>, returning the diagnostics it logs beside its
  result.
\<close>

definition translate_biguint_math_operator ::
  "('pt, 'bop, 'uop, 'loc) eb_env \<Rightarrow> 'bop \<Rightarrow> 'loc \<Rightarrow> ('loc error + 'uop) \<times> 'loc log_entry list"
  where
  "translate_biguint_math_operator env operator loc =
     (let logs = (if operator = BuilderBinaryOp_div env
                    then [LogError division_diagnostic [] (Some loc)] else []);
          operator' = (if operator = BuilderBinaryOp_div env
                         then BuilderBinaryOp_floor_div env else operator)
      in (case BigUIntBinaryOperator env (BuilderBinaryOp_value env operator') of
            Some biguint_op \<Rightarrow> (Inr biguint_op, logs)
          | None \<Rightarrow> (Inl (CodeError ''Unsupported BigUInt math operator '' [] (Some loc)), logs)))"

text \<open>
  \<open>BigUIntExpressionBuilder.binary_op\<close> and \<open>augmented_assignment\<close>; \<open>self_expr\<close> is
  \<open>self.resolve()\<close>, and \<open>self.pytype\<close> is \<open>BigUIntType\<close>.
\<close>

definition BigUIntExpressionBuilder_binary_op ::
  "('pt, 'bop, 'uop, 'loc) eb_env \<Rightarrow> ('uop, 'loc) expression \<Rightarrow> ('pt, 'uop, 'loc) instance_builder
     \<Rightarrow> 'bop \<Rightarrow> 'loc \<Rightarrow> bool
     \<Rightarrow> ('loc error + ('pt, 'uop, 'loc) binary_op_result) \<times> 'loc log_entry list" where
  "BigUIntExpressionBuilder_binary_op env self_expr other op loc reverse =
     (case resolve_literal_BigUInt env other of
        Inl e \<Rightarrow> (Inl e, [])
      | Inr (LiteralBuilder lit literal_loc) \<Rightarrow> (Inr NotImplemented, [])
      | Inr (InstanceBuilder other_pytype other_resolved) \<Rightarrow>
          if other_pytype \<noteq> BigUIntType env \<and> other_pytype \<noteq> UInt64Type env
            then (Inr NotImplemented, [])
          else
            (let other_expr = (if other_pytype = BigUIntType env then other_resolved
                               else uint64_to_biguint other_resolved loc);
                 lhs = (if reverse then other_expr else self_expr);
                 rhs = (if reverse then self_expr else other_expr)
             in (case translate_biguint_math_operator env op loc of
                   (Inl e, logs) \<Rightarrow> (Inl e, logs)
                 | (Inr biguint_op, logs) \<Rightarrow>
                     (Inr (Built (InstanceBuilder (BigUIntType env)
                                    (BigUIntBinaryOperation loc lhs biguint_op rhs))),
                      logs))))"

definition BigUIntExpressionBuilder_augmented_assignment ::
  "('pt, 'bop, 'uop, 'loc) eb_env \<Rightarrow> ('uop, 'loc) expression \<Rightarrow> 'bop
     \<Rightarrow> ('pt, 'uop, 'loc) instance_builder \<Rightarrow> 'loc
     \<Rightarrow> ('loc error + ('uop, 'loc) statement) \<times> 'loc log_entry list" where
  "BigUIntExpressionBuilder_augmented_assignment env self_expr op rhs loc =
     (case resolve_literal_BigUInt env rhs of
        Inl e \<Rightarrow> (Inl e, [])
      | Inr (LiteralBuilder lit literal_loc) \<Rightarrow>
          (Inl (CodeError ''Invalid operand type '' [] (Some loc)), [])
      | Inr (InstanceBuilder rhs_pytype rhs_resolved) \<Rightarrow>
          if rhs_pytype \<noteq> BigUIntType env \<and> rhs_pytype \<noteq> UInt64Type env
            then (Inl (CodeError (''Invalid operand type '' @ pytype_name env rhs_pytype
                         @ '' for '' @ BuilderBinaryOp_value env op @ ''= with ''
                         @ pytype_name env (BigUIntType env)) [] (Some loc)), [])
          else
            (let val = (if rhs_pytype = BigUIntType env then rhs_resolved
                        else uint64_to_biguint rhs_resolved loc)
             in (case resolve_lvalue env self_expr of
                   Inl e \<Rightarrow> (Inl e, [])
                 | Inr target \<Rightarrow>
                     (case translate_biguint_math_operator env op loc of
                        (Inl e, logs) \<Rightarrow> (Inl e, logs)
                      | (Inr biguint_op, logs) \<Rightarrow>
                          (Inr (BigUIntAugmentedAssignment loc target val biguint_op), logs)))))"




text \<open>
  Where the other operand is not of an integer type the operator is never translated:
  for a typed value that is neither a BigUInt nor a UInt64, \<open>binary_op\<close> returns
  \<open>NotImplemented\<close> and \<open>augmented_assignment\<close> raises; for a literal that is no \<open>int\<close>,
  \<open>convert_literal\<close> raises. No diagnostic is logged in these cases, whatever the operator.
\<close>

lemma binary_op_other_type:
  "typ \<noteq> BigUIntType env \<Longrightarrow> typ \<noteq> UInt64Type env \<Longrightarrow>
     BigUIntExpressionBuilder_binary_op env self_expr (InstanceBuilder typ expr) op loc reverse
       = (Inr NotImplemented, []) \<and>
     BigUIntExpressionBuilder_augmented_assignment env self_expr op (InstanceBuilder typ expr) loc
       = (Inl (CodeError (''Invalid operand type '' @ pytype_name env typ @ '' for ''
                 @ BuilderBinaryOp_value env op @ ''= with ''
                 @ pytype_name env (BigUIntType env)) [] (Some loc)), [])"
  by (simp add: BigUIntExpressionBuilder_binary_op_def
      BigUIntExpressionBuilder_augmented_assignment_def resolve_literal_BigUInt_def)

lemma binary_op_other_literal:
  "match_int lit = None \<Longrightarrow>
     BigUIntExpressionBuilder_binary_op env self_expr (LiteralBuilder lit l) op loc reverse
       = (Inl (CodeError ''can't covert literal '' [] (Some l)), []) \<and>
     BigUIntExpressionBuilder_augmented_assignment env self_expr op (LiteralBuilder lit l) loc
       = (Inl (CodeError ''can't covert literal '' [] (Some l)), [])"
  by (simp add: BigUIntExpressionBuilder_binary_op_def
      BigUIntExpressionBuilder_augmented_assignment_def resolve_literal_BigUInt_def
      BigUIntTypeBuilder_convert_literal_def)




section \<open>Lowering MIR to TEAL (puya/teal/main.py)\<close>

text \<open>
  The models of MIR and TEAL are declared outside the files at hand; the records hold
  the attributes \<open>main.py\<close> reads and writes. An MIR op, a TEAL op, a slot of the x-stack
  and a stack manipulation are parameters. The fields of the MIR records carry the
  prefix \<open>mir_\<close> where TEAL has a field of the same name; \<open>signature_name\<close> is
  \<open>signature.name\<close> and \<open>program_id\<close> is \<open>id\<close>.
\<close>

record Signature =
  signature_name :: string

record ('mop, 'x) MemoryBasicBlock =
  block_name :: string
  mir_ops :: "'mop list"
  x_stack_in :: "'x list option"
  mir_entry_stack_height :: int
  mir_exit_stack_height :: int

record ('mop, 'x) MemorySubroutine =
  mir_is_main :: bool
  mir_signature :: Signature
  all_blocks :: "('mop, 'x) MemoryBasicBlock list"

record ('mop, 'x) mir_Program =
  mir_id :: string
  mir_main :: "('mop, 'x) MemorySubroutine"
  mir_subroutines :: "('mop, 'x) MemorySubroutine list"

record ('top, 'x) TealBlock =
  label :: string
  ops :: "'top list"
  x_stack :: "'x list"
  entry_stack_height :: int
  exit_stack_height :: int

record ('top, 'x) TealSubroutine =
  is_main :: bool
  signature :: Signature
  blocks :: "('top, 'x) TealBlock list"

record ('top, 'x) TealProgram =
  program_id :: string
  target_avm_version :: int
  main :: "('top, 'x) TealSubroutine"
  subroutines :: "('top, 'x) TealSubroutine list"

text \<open>\<open>TealProgram.all_subroutines\<close>: the main subroutine, then the others.\<close>

definition all_subroutines :: "('top, 'x) TealProgram \<Rightarrow> ('top, 'x) TealSubroutine list" where
  "all_subroutines program = main program # subroutines program"

record CompileOptions =
  optimization_level :: int
  options_target_avm_version :: int

record CompileContext =
  options :: CompileOptions

text \<open>
  What \<open>main.py\<close> calls and does not define is a parameter: the stack simulation
  (\<open>Stack(allow_virtual=False)\<close>, \<open>begin_block\<close>, and \<open>accept\<close> of an MIR op, which
  returns the TEAL ops and the stack after), the test for a \<open>BranchingOp\<close> and its
  \<open>targets()\<close>, \<open>validate\<close> of a TEAL block (\<open>Some\<close> error when it raises), the stack
  manipulations of a TEAL op, and the three transforms of the optimizer, each giving the
  program after it.
\<close>

record ('mop, 'top, 'x, 'sm, 'stack, 'loc) teal_env =
  new_stack :: 'stack
  begin_block :: "'stack \<Rightarrow> ('mop, 'x) MemorySubroutine \<Rightarrow> ('mop, 'x) MemoryBasicBlock \<Rightarrow> 'stack"
  accept :: "'mop \<Rightarrow> 'stack \<Rightarrow> 'top list \<times> 'stack"
  is_BranchingOp :: "'mop \<Rightarrow> bool"
  targets :: "'mop \<Rightarrow> string list"
  validate :: "('top, 'x) TealBlock \<Rightarrow> 'loc error option"
  stack_manipulations :: "'top \<Rightarrow> 'sm list"
  optimize_teal_program :: "CompileContext \<Rightarrow> ('top, 'x) TealProgram \<Rightarrow> ('top, 'x) TealProgram"
  gather_program_constants :: "CompileContext \<Rightarrow> ('top, 'x) TealProgram \<Rightarrow> ('top, 'x) TealProgram"
  combine_pushes :: "('top, 'x) TealProgram \<Rightarrow> ('top, 'x) TealProgram"

text \<open>\<open>_get_referenced_labels\<close>.\<close>

definition get_referenced_labels ::
  "('mop, 'top, 'x, 'sm, 'stack, 'loc) teal_env \<Rightarrow> ('mop, 'x) MemorySubroutine \<Rightarrow> string set" where
  "get_referenced_labels env subroutine =
     fold (\<lambda>b result.
             fold (\<lambda>op result. if is_BranchingOp env op then result \<union> set (targets env op)
                                else result)
               (mir_ops b) result)
       (all_blocks subroutine) {}"

text \<open>
  The generator \<open>teal_op for mir_op in mir_block.ops for teal_op in mir_op.accept(stack)\<close>,
  with the stack after it.
\<close>

fun lower_ops ::
  "('mop, 'top, 'x, 'sm, 'stack, 'loc) teal_env \<Rightarrow> 'mop list \<Rightarrow> 'stack \<Rightarrow> 'top list \<times> 'stack" where
  "lower_ops env [] stack = ([], stack)"
| "lower_ops env (mir_op # rest) stack =
     (case accept env mir_op stack of
        (teal_ops, stack') \<Rightarrow>
          (case lower_ops env rest stack' of
             (later_ops, stack'') \<Rightarrow> (teal_ops @ later_ops, stack'')))"

text \<open>
  The loop of \<open>_lower_sub\<close> over \<open>enumerate(mir_sub.all_blocks)\<close>; its state is the stack
  and \<open>sub.blocks\<close>. \<open>sub.blocks[-1]\<close> of an empty list is an \<open>IndexError\<close>.
\<close>

fun lower_sub_loop ::
  "('mop, 'top, 'x, 'sm, 'stack, 'loc) teal_env \<Rightarrow> ('mop, 'x) MemorySubroutine \<Rightarrow> string set
     \<Rightarrow> (nat \<times> ('mop, 'x) MemoryBasicBlock) list \<Rightarrow> 'stack \<Rightarrow> ('top, 'x) TealBlock list
     \<Rightarrow> 'loc error + ('top, 'x) TealBlock list" where
  "lower_sub_loop env mir_sub referenced_labels [] stack sub_blocks = Inr sub_blocks"
| "lower_sub_loop env mir_sub referenced_labels ((block_idx, mir_block) # rest) stack sub_blocks =
     (let stack1 = begin_block env stack mir_sub mir_block;
          sub_blocks1 =
            (if block_idx = 0 \<or> block_name mir_block \<in> referenced_labels
               then sub_blocks @
                 [\<lparr>label = (if \<not> (mir_is_main mir_sub \<and> block_idx = 0) then block_name mir_block
                            else signature_name (mir_signature mir_sub)),
                   ops = [],
                   x_stack = (case x_stack_in mir_block of None \<Rightarrow> [] | Some xs \<Rightarrow> xs),
                   entry_stack_height = mir_entry_stack_height mir_block,
                   exit_stack_height = - 1\<rparr>]
             else sub_blocks)
      in if sub_blocks1 = [] then Inl IndexError
         else
           (case lower_ops env (mir_ops mir_block) stack1 of
              (teal_ops, stack2) \<Rightarrow>
                lower_sub_loop env mir_sub referenced_labels rest stack2
                  (butlast sub_blocks1 @
                     [(last sub_blocks1)
                        \<lparr>exit_stack_height := mir_exit_stack_height mir_block,
                         ops := ops (last sub_blocks1) @ teal_ops\<rparr>])))"

definition lower_sub ::
  "('mop, 'top, 'x, 'sm, 'stack, 'loc) teal_env \<Rightarrow> ('mop, 'x) MemorySubroutine
     \<Rightarrow> 'loc error + ('top, 'x) TealSubroutine" where
  "lower_sub env mir_sub =
     (case lower_sub_loop env mir_sub (get_referenced_labels env mir_sub)
             (enumerate 0 (all_blocks mir_sub)) (new_stack env) [] of
        Inl e \<Rightarrow> Inl e
      | Inr sub_blocks \<Rightarrow>
          Inr \<lparr>is_main = mir_is_main mir_sub, signature = mir_signature mir_sub,
                blocks = sub_blocks\<rparr>)"


subsection \<open>The lowering of a subroutine, as the specification words it\<close>

text \<open>
  The referenced labels are the targets of the branching ops of the subroutine. An MIR
  block, with its index, opens a TEAL block when it is the first or its name is
  referenced. Each MIR block is lowered in turn, the stack simulation running through
  all of them. A TEAL block is made of an opening MIR block and the blocks after it up
  to the next opening one: its label, x-stack and entry height are those of the opening
  block (the label of the first block of main being the signature's name), its ops are
  the lowered ops of all of them in order, and its exit height is that of the last.
\<close>

definition referenced_labels_spec ::
  "('mop, 'top, 'x, 'sm, 'stack, 'loc) teal_env \<Rightarrow> ('mop, 'x) MemorySubroutine \<Rightarrow> string set" where
  "referenced_labels_spec env mir_sub =
     {t. \<exists>b \<in> set (all_blocks mir_sub). \<exists>op \<in> set (mir_ops b).
           is_BranchingOp env op \<and> t \<in> set (targets env op)}"

definition opens_teal_block ::
  "string set \<Rightarrow> nat \<times> ('mop, 'x) MemoryBasicBlock \<Rightarrow> bool" where
  "opens_teal_block referenced_labels item =
     (fst item = 0 \<or> block_name (snd item) \<in> referenced_labels)"

definition opened_label ::
  "('mop, 'x) MemorySubroutine \<Rightarrow> nat \<times> ('mop, 'x) MemoryBasicBlock \<Rightarrow> string" where
  "opened_label mir_sub item =
     (if mir_is_main mir_sub \<and> fst item = 0 then signature_name (mir_signature mir_sub)
      else block_name (snd item))"

fun lowered_ops_per_block ::
  "('mop, 'top, 'x, 'sm, 'stack, 'loc) teal_env \<Rightarrow> ('mop, 'x) MemorySubroutine \<Rightarrow> 'stack
     \<Rightarrow> ('mop, 'x) MemoryBasicBlock list \<Rightarrow> 'top list list" where
  "lowered_ops_per_block env mir_sub stack [] = []"
| "lowered_ops_per_block env mir_sub stack (b # rest) =
     (case lower_ops env (mir_ops b) (begin_block env stack mir_sub b) of
        (teal_ops, stack') \<Rightarrow> teal_ops # lowered_ops_per_block env mir_sub stack' rest)"

definition teal_block_of_group ::
  "('mop, 'x) MemorySubroutine \<Rightarrow> (nat \<times> ('mop, 'x) MemoryBasicBlock) \<times> 'top list
     \<Rightarrow> ((nat \<times> ('mop, 'x) MemoryBasicBlock) \<times> 'top list) list \<Rightarrow> ('top, 'x) TealBlock" where
  "teal_block_of_group mir_sub opening followers =
     \<lparr>label = opened_label mir_sub (fst opening),
      ops = concat (map snd (opening # followers)),
      x_stack = (case x_stack_in (snd (fst opening)) of None \<Rightarrow> [] | Some xs \<Rightarrow> xs),
      entry_stack_height = mir_entry_stack_height (snd (fst opening)),
      exit_stack_height = mir_exit_stack_height (snd (fst (last (opening # followers))))\<rparr>"

function merge_fall_through ::
  "('mop, 'x) MemorySubroutine \<Rightarrow> string set
     \<Rightarrow> ((nat \<times> ('mop, 'x) MemoryBasicBlock) \<times> 'top list) list \<Rightarrow> ('top, 'x) TealBlock list" where
  "merge_fall_through mir_sub referenced_labels [] = []"
| "merge_fall_through mir_sub referenced_labels (opening # rest) =
     teal_block_of_group mir_sub opening
       (takeWhile (\<lambda>it. \<not> opens_teal_block referenced_labels (fst it)) rest)
     # merge_fall_through mir_sub referenced_labels
         (dropWhile (\<lambda>it. \<not> opens_teal_block referenced_labels (fst it)) rest)"
  by pat_completeness auto
termination
  by (relation "measure (\<lambda>(mir_sub, referenced_labels, items). length items)")
    (auto simp: length_dropWhile_le less_Suc_eq_le)

definition lower_sub_spec ::
  "('mop, 'top, 'x, 'sm, 'stack, 'loc) teal_env \<Rightarrow> ('mop, 'x) MemorySubroutine
     \<Rightarrow> ('top, 'x) TealSubroutine" where
  "lower_sub_spec env mir_sub =
     \<lparr>is_main = mir_is_main mir_sub, signature = mir_signature mir_sub,
      blocks = merge_fall_through mir_sub (referenced_labels_spec env mir_sub)
                 (zip (enumerate 0 (all_blocks mir_sub))
                    (lowered_ops_per_block env mir_sub (new_stack env) (all_blocks mir_sub)))\<rparr>"

subsection \<open>The loop of \<open>_lower_sub\<close> merges the fall-through blocks\<close>

lemma fold_targets:
  "fold (\<lambda>op result. if is_BranchingOp env op then result \<union> set (targets env op) else result)
     mops acc
   = acc \<union> {t. \<exists>op \<in> set mops. is_BranchingOp env op \<and> t \<in> set (targets env op)}"
  by (induction mops arbitrary: acc) auto

lemma fold_blocks_targets:
  "fold (\<lambda>b result.
           fold (\<lambda>op result. if is_BranchingOp env op then result \<union> set (targets env op)
                              else result)
             (mir_ops b) result) bs acc
   = acc \<union> {t. \<exists>b \<in> set bs. \<exists>op \<in> set (mir_ops b).
                 is_BranchingOp env op \<and> t \<in> set (targets env op)}"
  by (induction bs arbitrary: acc) (auto simp: fold_targets)

lemma get_referenced_labels_spec:
  "get_referenced_labels env mir_sub = referenced_labels_spec env mir_sub"
  by (simp add: get_referenced_labels_def referenced_labels_spec_def fold_blocks_targets)

text \<open>What the loop does to the open block when blocks that open nothing follow.\<close>

definition absorb ::
  "('top, 'x) TealBlock \<Rightarrow> ((nat \<times> ('mop, 'x) MemoryBasicBlock) \<times> 'top list) list
     \<Rightarrow> ('top, 'x) TealBlock" where
  "absorb blk followers =
     blk\<lparr>exit_stack_height :=
            (if followers = [] then exit_stack_height blk
             else mir_exit_stack_height (snd (fst (last followers)))),
         ops := ops blk @ concat (map snd followers)\<rparr>"

lemma absorb_Nil: "absorb blk [] = blk"
  by (simp add: absorb_def)

lemma absorb_Cons:
  "absorb blk (it # followers)
   = absorb (blk\<lparr>exit_stack_height := mir_exit_stack_height (snd (fst it)),
                  ops := ops blk @ snd it\<rparr>) followers"
  by (simp add: absorb_def)

lemma absorb_new_block:
  "absorb \<lparr>label = opened_label mir_sub (fst opening), ops = snd opening,
           x_stack = (case x_stack_in (snd (fst opening)) of None \<Rightarrow> [] | Some xs \<Rightarrow> xs),
           entry_stack_height = mir_entry_stack_height (snd (fst opening)),
           exit_stack_height = mir_exit_stack_height (snd (fst opening))\<rparr> followers
   = teal_block_of_group mir_sub opening followers"
  by (simp add: absorb_def teal_block_of_group_def)

lemma lower_sub_loop_open:
  "sub_blocks \<noteq> [] \<Longrightarrow>
   lower_sub_loop env mir_sub refs its stack sub_blocks
   = Inr (butlast sub_blocks
          @ absorb (last sub_blocks)
              (takeWhile (\<lambda>it. \<not> opens_teal_block refs (fst it))
                 (zip its (lowered_ops_per_block env mir_sub stack (map snd its))))
          # merge_fall_through mir_sub refs
              (dropWhile (\<lambda>it. \<not> opens_teal_block refs (fst it))
                 (zip its (lowered_ops_per_block env mir_sub stack (map snd its)))))"
proof (induction its arbitrary: stack sub_blocks)
  case Nil
  then show ?case by (simp add: absorb_Nil)
next
  case (Cons it its)
  obtain block_idx mir_block where it: "it = (block_idx, mir_block)"
    by (cases it)
  obtain teal_ops stack2 where
    low: "lower_ops env (mir_ops mir_block) (begin_block env stack mir_sub mir_block)
            = (teal_ops, stack2)"
    by (cases "lower_ops env (mir_ops mir_block) (begin_block env stack mir_sub mir_block)")
  show ?case
  proof (cases "opens_teal_block refs it")
    case True
    let ?new = "\<lparr>label = opened_label mir_sub it, ops = teal_ops,
                   x_stack = (case x_stack_in mir_block of None \<Rightarrow> [] | Some xs \<Rightarrow> xs),
                   entry_stack_height = mir_entry_stack_height mir_block,
                   exit_stack_height = mir_exit_stack_height mir_block\<rparr>"
    have step: "lower_sub_loop env mir_sub refs (it # its) stack sub_blocks
                = lower_sub_loop env mir_sub refs its stack2 (sub_blocks @ [?new])"
      using True it low by (auto simp: opens_teal_block_def opened_label_def Let_def)
    have "sub_blocks @ [?new] \<noteq> []" by simp
    from Cons.IH[OF this, of stack2] True it low Cons.prems
    show ?thesis
      unfolding step
      using absorb_new_block[of mir_sub "(it, teal_ops)"]
      by (simp add: absorb_Nil del: lower_sub_loop.simps)
  next
    case False
    let ?last = "(last sub_blocks)\<lparr>exit_stack_height := mir_exit_stack_height mir_block,
                                    ops := ops (last sub_blocks) @ teal_ops\<rparr>"
    have step: "lower_sub_loop env mir_sub refs (it # its) stack sub_blocks
                = lower_sub_loop env mir_sub refs its stack2 (butlast sub_blocks @ [?last])"
      using False it low Cons.prems by (auto simp: opens_teal_block_def Let_def)
    have "butlast sub_blocks @ [?last] \<noteq> []" by simp
    from Cons.IH[OF this, of stack2] False it low Cons.prems
    show ?thesis
      unfolding step
      by (simp add: absorb_Cons del: lower_sub_loop.simps)
  qed
qed


lemma lower_sub_loop_first:
  assumes "opens_teal_block refs it"
  shows "lower_sub_loop env mir_sub refs (it # its) stack []
         = Inr (merge_fall_through mir_sub refs
                  (zip (it # its) (lowered_ops_per_block env mir_sub stack (map snd (it # its)))))"
proof -
  obtain block_idx mir_block where it: "it = (block_idx, mir_block)"
    by (cases it)
  obtain teal_ops stack2 where
    low: "lower_ops env (mir_ops mir_block) (begin_block env stack mir_sub mir_block)
            = (teal_ops, stack2)"
    by (cases "lower_ops env (mir_ops mir_block) (begin_block env stack mir_sub mir_block)")
  let ?new = "\<lparr>label = opened_label mir_sub it, ops = teal_ops,
                 x_stack = (case x_stack_in mir_block of None \<Rightarrow> [] | Some xs \<Rightarrow> xs),
                 entry_stack_height = mir_entry_stack_height mir_block,
                 exit_stack_height = mir_exit_stack_height mir_block\<rparr>"
  have step: "lower_sub_loop env mir_sub refs (it # its) stack []
              = lower_sub_loop env mir_sub refs its stack2 [?new]"
    using assms it low by (auto simp: opens_teal_block_def opened_label_def Let_def)
  have "[?new] \<noteq> []" by simp
  from lower_sub_loop_open[OF this, of env mir_sub refs its stack2] it low
  show ?thesis
    unfolding step
    using absorb_new_block[of mir_sub "(it, teal_ops)"]
    by (simp del: lower_sub_loop.simps)
qed

lemma length_lowered_ops_per_block:
  "length (lowered_ops_per_block env mir_sub stack bs) = length bs"
  by (induction bs arbitrary: stack) (auto split: prod.splits)

lemma filter_dropWhile_not: "filter P (dropWhile (\<lambda>x. \<not> P x) xs) = filter P xs"
  by (induction xs) auto

lemma merge_fall_through_labels:
  "(items \<noteq> [] \<longrightarrow> opens_teal_block refs (fst (hd items))) \<Longrightarrow>
   map label (merge_fall_through mir_sub refs items)
   = map (opened_label mir_sub) (filter (opens_teal_block refs) (map fst items))"
proof (induction mir_sub refs items rule: merge_fall_through.induct)
  case (1 mir_sub refs)
  then show ?case by simp
next
  case (2 mir_sub refs item rest)
  let ?P = "\<lambda>it. opens_teal_block refs (fst it)"
  let ?rest' = "dropWhile (\<lambda>it. \<not> ?P it) rest"
  have hd: "?rest' \<noteq> [] \<longrightarrow> opens_teal_block refs (fst (hd ?rest'))"
    using hd_dropWhile[of "\<lambda>it. \<not> ?P it" rest] by auto
  have "filter (opens_teal_block refs) (map fst rest) = map fst (filter ?P rest)"
    by (simp add: filter_map comp_def)
  also have "\<dots> = map fst (filter ?P ?rest')"
    by (simp add: filter_dropWhile_not)
  also have "\<dots> = filter (opens_teal_block refs) (map fst ?rest')"
    by (simp add: filter_map comp_def)
  finally have flt: "filter (opens_teal_block refs) (map fst rest)
                     = filter (opens_teal_block refs) (map fst ?rest')" .
  from "2.prems" have "opens_teal_block refs (fst item)" by simp
  with "2.IH"[OF hd] flt show ?case
    by (simp add: teal_block_of_group_def)
qed

text \<open>
  C9. \<open>_lower_sub\<close> returns the subroutine the specification describes: a TEAL block is
  opened exactly for the first MIR block and for each MIR block whose name is a target of
  a branching op of the subroutine, labelled with the name of the MIR block, or with the
  signature's name for the first block of main; the lowered ops of every other MIR block
  are appended to the block opened before, whose exit height becomes that of the MIR
  block. In particular the labels of the TEAL blocks are those of the opening MIR blocks,
  in order.
\<close>

theorem lower_sub_merges_fall_through:
  "lower_sub env mir_sub = Inr (lower_sub_spec env mir_sub) \<and>
   map label (blocks (lower_sub_spec env mir_sub))
     = map (opened_label mir_sub)
         (filter (opens_teal_block (referenced_labels_spec env mir_sub))
            (enumerate 0 (all_blocks mir_sub)))"
proof
  show "lower_sub env mir_sub = Inr (lower_sub_spec env mir_sub)"
  proof (cases "all_blocks mir_sub")
    case Nil
    then show ?thesis
      by (simp add: lower_sub_def lower_sub_spec_def)
  next
    case (Cons b bs)
    have "opens_teal_block (referenced_labels_spec env mir_sub) (0, b)"
      by (simp add: opens_teal_block_def)
    from lower_sub_loop_first[OF this, of env mir_sub "enumerate 1 bs" "new_stack env"] Cons
    show ?thesis
      by (simp add: lower_sub_def lower_sub_spec_def get_referenced_labels_spec
          del: lower_sub_loop.simps)
  qed
next
  let ?items = "zip (enumerate 0 (all_blocks mir_sub))
                  (lowered_ops_per_block env mir_sub (new_stack env) (all_blocks mir_sub))"
  have fst: "map fst ?items = enumerate 0 (all_blocks mir_sub)"
    by (simp add: length_lowered_ops_per_block)
  have "?items \<noteq> [] \<longrightarrow> opens_teal_block (referenced_labels_spec env mir_sub) (fst (hd ?items))"
    by (cases "all_blocks mir_sub") (auto simp: opens_teal_block_def split: prod.splits)
  from merge_fall_through_labels[OF this, of mir_sub] fst
  show "map label (blocks (lower_sub_spec env mir_sub))
          = map (opened_label mir_sub)
              (filter (opens_teal_block (referenced_labels_spec env mir_sub))
                 (enumerate 0 (all_blocks mir_sub)))"
    by (simp add: lower_sub_spec_def)
qed


subsection \<open>The pipeline\<close>

fun first_error :: "('a \<Rightarrow> 'e option) \<Rightarrow> 'a list \<Rightarrow> 'e option" where
  "first_error check [] = None"
| "first_error check (x # xs) =
     (case check x of Some e \<Rightarrow> Some e | None \<Rightarrow> first_error check xs)"

text \<open>
  \<open>_build_teal\<close>: the arguments of \<open>TealProgram\<close> are evaluated in the order written,
  then every block of every subroutine (main first) is validated.
\<close>

definition build_teal ::
  "('mop, 'top, 'x, 'sm, 'stack, 'loc) teal_env \<Rightarrow> CompileContext \<Rightarrow> ('mop, 'x) mir_Program
     \<Rightarrow> 'loc error + ('top, 'x) TealProgram" where
  "build_teal env context mir_program =
     (case lower_sub env (mir_main mir_program) of
        Inl e \<Rightarrow> Inl e
      | Inr teal_main \<Rightarrow>
          (case sequence_sum (map (lower_sub env) (mir_subroutines mir_program)) of
             Inl e \<Rightarrow> Inl e
           | Inr teal_subs \<Rightarrow>
               (let program = \<lparr>program_id = mir_id mir_program,
                                target_avm_version = options_target_avm_version (options context),
                                main = teal_main, subroutines = teal_subs\<rparr>
                in (case first_error (validate env)
                          (concat (map blocks (all_subroutines program))) of
                      Some e \<Rightarrow> Inl e
                    | None \<Rightarrow> Inr program))))"

text \<open>
  The list \<open>mir_to_teal\<close> collects before and after the transforms, from the
  subroutines it is given.
\<close>

definition collect_stack_manipulations ::
  "('mop, 'top, 'x, 'sm, 'stack, 'loc) teal_env \<Rightarrow> ('top, 'x) TealSubroutine list \<Rightarrow> 'sm list" where
  "collect_stack_manipulations env subs =
     [sm. sub \<leftarrow> subs, block \<leftarrow> blocks sub, op \<leftarrow> ops block, sm \<leftarrow> stack_manipulations env op]"

text \<open>
  \<open>mir_to_teal\<close>: the lists \<open>before\<close> and \<open>after\<close> are collected from \<open>teal.subroutines\<close>;
  \<open>gather_program_constants\<close> changes the program in place, so the program after it is
  what the parameter returns.
\<close>

definition mir_to_teal ::
  "('mop, 'top, 'x, 'sm, 'stack, 'loc) teal_env \<Rightarrow> CompileContext \<Rightarrow> ('mop, 'x) mir_Program
     \<Rightarrow> 'loc error + ('top, 'x) TealProgram" where
  "mir_to_teal env context program_mir =
     (case build_teal env context program_mir of
        Inl e \<Rightarrow> Inl e
      | Inr teal \<Rightarrow>
          (let manipulations_before = collect_stack_manipulations env (subroutines teal);
               teal1 = (if optimization_level (options context) > 0
                          then optimize_teal_program env context teal else teal);
               teal2 = gather_program_constants env context teal1;
               teal3 = (if optimization_level (options context) > 0
                          then combine_pushes env teal2 else teal2);
               manipulations_after = collect_stack_manipulations env (subroutines teal3)
           in if manipulations_before = manipulations_after then Inr teal3
              else Inl (AssertionError
                     ''expected stack manipulations to be preserved after optimization'')))"

text \<open>
  An instance for examples. MIR and TEAL ops are strings; an MIR op \<open>b L\<close> is a branch
  to \<open>L\<close>; lowering an op gives the op itself, whose one stack manipulation is itself; the
  stack counts the ops seen. The first transform empties the main subroutine and leaves
  the others as they are; the other two change nothing.
\<close>

definition example_env :: "(string, string, string, string, nat, unit) teal_env" where
  "example_env =
     \<lparr>new_stack = 0,
      begin_block = (\<lambda>stack mir_sub mir_block. stack),
      accept = (\<lambda>mir_op stack. ([mir_op], Suc stack)),
      is_BranchingOp = (\<lambda>mir_op. take 2 mir_op = ''b ''),
      targets = (\<lambda>mir_op. [drop 2 mir_op]),
      validate = (\<lambda>teal_block. None),
      stack_manipulations = (\<lambda>teal_op. [teal_op]),
      optimize_teal_program = (\<lambda>context teal. teal\<lparr>main := (main teal)\<lparr>blocks := []\<rparr>\<rparr>),
      gather_program_constants = (\<lambda>context teal. teal),
      combine_pushes = (\<lambda>teal. teal)\<rparr>"

definition example_main :: "(string, string) MemorySubroutine" where
  "example_main =
     \<lparr>mir_is_main = True, mir_signature = \<lparr>signature_name = ''approval''\<rparr>,
      all_blocks =
        [\<lparr>block_name = ''entry'', mir_ops = [''int 1''], x_stack_in = None,
          mir_entry_stack_height = 0, mir_exit_stack_height = 1\<rparr>,
         \<lparr>block_name = ''next'', mir_ops = [''b loop''], x_stack_in = Some [],
          mir_entry_stack_height = 1, mir_exit_stack_height = 1\<rparr>,
         \<lparr>block_name = ''loop'', mir_ops = [''int 2'', ''b loop''], x_stack_in = Some [''x''],
          mir_entry_stack_height = 1, mir_exit_stack_height = 2\<rparr>]\<rparr>"

definition example_program :: "(string, string) mir_Program" where
  "example_program = \<lparr>mir_id = ''P'', mir_main = example_main, mir_subroutines = []\<rparr>"

definition example_context :: CompileContext where
  "example_context = \<lparr>options = \<lparr>optimization_level = 1, options_target_avm_version = 10\<rparr>\<rparr>"

lemma mir_to_teal_preserves_subroutines:
  assumes "mir_to_teal env context program_mir = Inr teal'"
  shows "\<exists>teal. build_teal env context program_mir = Inr teal \<and>
           collect_stack_manipulations env (subroutines teal')
             = collect_stack_manipulations env (subroutines teal)"
  using assms
  by (auto simp: mir_to_teal_def Let_def split: sum.splits if_splits)


lemma lower_sub_example:
  "lower_sub example_env example_main
   = Inr \<lparr>is_main = True, signature = \<lparr>signature_name = ''approval''\<rparr>,
          blocks =
            [\<lparr>label = ''approval'', ops = [''int 1'', ''b loop''], x_stack = [],
              entry_stack_height = 0, exit_stack_height = 1\<rparr>,
             \<lparr>label = ''loop'', ops = [''int 2'', ''b loop''], x_stack = [''x''],
              entry_stack_height = 1, exit_stack_height = 2\<rparr>]\<rparr>"
  by code_simp

theorem lower_sub_merges_fall_through_witness:
  "lower_sub example_env example_main = Inr (lower_sub_spec example_env example_main) \<and>
   blocks (lower_sub_spec example_env example_main)
     = [\<lparr>label = ''approval'', ops = [''int 1'', ''b loop''], x_stack = [],
         entry_stack_height = 0, exit_stack_height = 1\<rparr>,
        \<lparr>label = ''loop'', ops = [''int 2'', ''b loop''], x_stack = [''x''],
         entry_stack_height = 1, exit_stack_height = 2\<rparr>] \<and>
   map (opened_label example_main)
     (filter (opens_teal_block (referenced_labels_spec example_env example_main))
        (enumerate 0 (all_blocks example_main)))
     = [''approval'', ''loop'']"
proof -
  note inst = lower_sub_merges_fall_through[of example_env example_main]
  from inst lower_sub_example
  have spec: "lower_sub_spec example_env example_main
              = \<lparr>is_main = True, signature = \<lparr>signature_name = ''approval''\<rparr>,
                 blocks =
                   [\<lparr>label = ''approval'', ops = [''int 1'', ''b loop''], x_stack = [],
                     entry_stack_height = 0, exit_stack_height = 1\<rparr>,
                    \<lparr>label = ''loop'', ops = [''int 2'', ''b loop''], x_stack = [''x''],
                     entry_stack_height = 1, exit_stack_height = 2\<rparr>]\<rparr>"
    by simp
  from inst show ?thesis
    unfolding spec by simp
qed

text \<open>
  C1. The claim is that \<open>mir_to_teal\<close> asserts, at the boundary of the pipeline, that the
  stack manipulations of every op of every block of every subroutine are the same before
  and after the transforms. The lists it compares are collected from \<open>teal.subroutines\<close>,
  which does not hold the main subroutine (\<open>_build_teal\<close> validates
  \<open>all_subroutines\<close>). For the program below, made of a main subroutine only, both
  lists are empty while the program built has four stack manipulations; with a first
  transform that empties main, \<open>mir_to_teal\<close> returns a program that has none.
\<close>

theorem mir_to_teal_assertion_omits_main:
  "\<exists>built teal'.
     build_teal example_env example_context example_program = Inr built \<and>
     collect_stack_manipulations example_env (all_subroutines built)
       = [''int 1'', ''b loop'', ''int 2'', ''b loop''] \<and>
     collect_stack_manipulations example_env (subroutines built) = [] \<and>
     mir_to_teal example_env example_context example_program = Inr teal' \<and>
     collect_stack_manipulations example_env (subroutines teal') = [] \<and>
     collect_stack_manipulations example_env (all_subroutines teal') = []"
proof -
  let ?built = "projr (build_teal example_env example_context example_program)"
  let ?teal' = "projr (mir_to_teal example_env example_context example_program)"
  have "build_teal example_env example_context example_program = Inr ?built"
    by code_simp
  moreover have "collect_stack_manipulations example_env (all_subroutines ?built)
                   = [''int 1'', ''b loop'', ''int 2'', ''b loop'']"
    by code_simp
  moreover have "collect_stack_manipulations example_env (subroutines ?built) = []"
    by code_simp
  moreover have "mir_to_teal example_env example_context example_program = Inr ?teal'"
    by code_simp
  moreover have "collect_stack_manipulations example_env (subroutines ?teal') = []"
    by code_simp
  moreover have "collect_stack_manipulations example_env (all_subroutines ?teal') = []"
    by code_simp
  ultimately show ?thesis by blast
qed

section \<open>Address validation (puya/awst/wtypes.py)\<close>

text \<open>
  The exceptions of Python's own that the decoding can raise. \<open>binascii.Error\<close> is a
  \<open>ValueError\<close>.
\<close>

datatype py_exception = ValueError string | OverflowError string

text \<open>
  \<open>base64.b32decode(s)\<close> of Python's standard library (CPython 3.12, \<open>Lib/base64.py\<close>),
  for a \<open>str\<close> argument and the defaults \<open>casefold=False\<close>, \<open>map01=None\<close>. A byte
  string is the list of its bytes, each an integer from 0 to 255. A \<open>str\<close> with a
  character outside ASCII is refused with a \<open>ValueError\<close>, here every \<open>char\<close> from 128
  on.
\<close>

definition b32_alphabet :: string where
  "b32_alphabet = ''ABCDEFGHIJKLMNOPQRSTUVWXYZ234567''"

fun index_of :: "'a \<Rightarrow> 'a list \<Rightarrow> int option" where
  "index_of c [] = None"
| "index_of c (x # xs) = (if c = x then Some 0 else map_option (\<lambda>i. i + 1) (index_of c xs))"

definition b32rev :: "char \<Rightarrow> int option" where
  "b32rev c = index_of c b32_alphabet"

text \<open>\<open>acc.to_bytes(5)\<close>: five bytes, big endian; an \<open>OverflowError\<close> if they do not hold it.\<close>

definition to_bytes5 :: "int \<Rightarrow> py_exception + int list" where
  "to_bytes5 acc =
     (if acc < 0 then Inl (OverflowError ''can't convert negative int to unsigned'')
      else if acc < 2 ^ 40
        then Inr [acc div 2 ^ 32 mod 256, acc div 2 ^ 24 mod 256, acc div 2 ^ 16 mod 256,
                  acc div 2 ^ 8 mod 256, acc mod 256]
      else Inl (OverflowError ''int too big to convert''))"

text \<open>The slices \<open>s[i : i + 8]\<close> for \<open>i\<close> in \<open>range(0, len(s), 8)\<close>.\<close>

function quanta :: "string \<Rightarrow> string list" where
  "quanta s = (if s = [] then [] else take 8 s # quanta (drop 8 s))"
  by pat_completeness auto
termination
  by (relation "measure length") auto

declare quanta.simps [simp del]

text \<open>The inner loop \<open>acc = (acc << 5) + b32rev[c]\<close>; \<open>None\<close> is the \<open>KeyError\<close>.\<close>

fun quantum_acc :: "int \<Rightarrow> string \<Rightarrow> int option" where
  "quantum_acc acc [] = Some acc"
| "quantum_acc acc (c # cs) =
     (case b32rev c of None \<Rightarrow> None | Some v \<Rightarrow> quantum_acc (acc * 32 + v) cs)"

text \<open>The outer loop, with \<open>decoded\<close> and the \<open>acc\<close> of the last quantum as its state.\<close>

fun decode_quanta :: "string list \<Rightarrow> int list \<Rightarrow> int \<Rightarrow> py_exception + (int list \<times> int)" where
  "decode_quanta [] decoded acc = Inr (decoded, acc)"
| "decode_quanta (q # qs) decoded acc =
     (case quantum_acc 0 q of
        None \<Rightarrow> Inl (ValueError ''Non-base32 digit found'')
      | Some acc' \<Rightarrow>
          (case to_bytes5 acc' of
             Inl e \<Rightarrow> Inl e
           | Inr bs \<Rightarrow> decode_quanta qs (decoded @ bs) acc'))"

definition rstrip_pad :: "string \<Rightarrow> string" where
  "rstrip_pad s = rev (dropWhile (\<lambda>c. c = CHR ''='') (rev s))"

definition b32decode :: "string \<Rightarrow> py_exception + int list" where
  "b32decode s =
     (if \<not> list_all (\<lambda>c. (of_char c :: nat) < 128) s
        then Inl (ValueError ''string argument should contain only ASCII characters'')
      else if length s mod 8 \<noteq> 0 then Inl (ValueError ''Incorrect padding'')
      else
        (let l = length s;
             stripped = rstrip_pad s;
             padchars = l - length stripped
         in (case decode_quanta (quanta stripped) [] 0 of
               Inl e \<Rightarrow> Inl e
             | Inr (decoded, acc) \<Rightarrow>
                 if l mod 8 \<noteq> 0 then Inl (ValueError ''Incorrect padding'')
                 else if padchars \<notin> {0, 1, 3, 4, 6}
                   then Inl (ValueError ''Incorrect padding'')
                 else if padchars \<noteq> 0 \<and> decoded \<noteq> []
                   then (case to_bytes5 (acc * 2 ^ (5 * padchars)) of
                           Inl e \<Rightarrow> Inl e
                         | Inr last_bytes \<Rightarrow>
                             Inr (take (length decoded - 5) decoded
                                  @ take ((43 - 5 * padchars) div 8) last_bytes))
                 else Inr decoded)))"

text \<open>
  Modelled from the spec: the constants of \<open>algo_constants\<close> are declared outside the
  files at hand. An address is 58 characters, its bytes are the 32 of the public key
  hash and the 4 of the checksum, and a byte string of the AVM holds at most 4096 bytes.
\<close>

definition ENCODED_ADDRESS_LENGTH :: nat where "ENCODED_ADDRESS_LENGTH = 58"
definition PUBLIC_KEY_HASH_LENGTH :: nat where "PUBLIC_KEY_HASH_LENGTH = 32"
definition ADDRESS_CHECKSUM_LENGTH :: nat where "ADDRESS_CHECKSUM_LENGTH = 4"
definition MAX_BYTES_LENGTH :: nat where "MAX_BYTES_LENGTH = 4096"

text \<open>\<open>valid_base32\<close>: only a \<open>ValueError\<close> is caught.\<close>

definition valid_base32 :: "string \<Rightarrow> py_exception + bool" where
  "valid_base32 s =
     (case b32decode s of
        Inl (ValueError msg) \<Rightarrow> Inr False
      | Inl (OverflowError msg) \<Rightarrow> Inl (OverflowError msg)
      | Inr val \<Rightarrow> Inr (length val \<le> MAX_BYTES_LENGTH))"

text \<open>
  \<open>valid_address\<close>; \<open>sha512_256_hash\<close> (of \<open>puya.utils\<close>, outside the files at hand) is a
  parameter. \<open>xs[-k:]\<close> is the slice from \<open>-k\<close> to the end.
\<close>

definition valid_address :: "(int list \<Rightarrow> int list) \<Rightarrow> string \<Rightarrow> py_exception + bool" where
  "valid_address sha512_256_hash address =
     (let padded_address = address @ replicate 6 (CHR ''='') in
      if length address \<noteq> ENCODED_ADDRESS_LENGTH then Inr False
      else
        (case valid_base32 padded_address of
           Inl e \<Rightarrow> Inl e
         | Inr False \<Rightarrow> Inr False
         | Inr True \<Rightarrow>
             (case b32decode padded_address of
                Inl e \<Rightarrow> Inl e
              | Inr address_bytes \<Rightarrow>
                  if length address_bytes \<noteq> PUBLIC_KEY_HASH_LENGTH + ADDRESS_CHECKSUM_LENGTH
                    then Inr False
                  else
                    (let public_key_hash = take PUBLIC_KEY_HASH_LENGTH address_bytes;
                         check_sum = drop PUBLIC_KEY_HASH_LENGTH address_bytes;
                         digest = sha512_256_hash public_key_hash;
                         verified_check_sum =
                           py_slice digest (- int ADDRESS_CHECKSUM_LENGTH) (int (length digest))
                     in Inr (check_sum = verified_check_sum)))))"


subsection \<open>The decoding raises nothing but \<open>ValueError\<close>\<close>

lemma index_of_bounds: "index_of c xs = Some v \<Longrightarrow> 0 \<le> v \<and> v < int (length xs)"
  by (induction xs arbitrary: v) (auto split: if_splits)

lemma b32rev_bounds: "b32rev c = Some v \<Longrightarrow> 0 \<le> v \<and> v < 32"
  using index_of_bounds[of c b32_alphabet v] by (simp add: b32rev_def b32_alphabet_def)

lemma quantum_acc_bounds:
  "quantum_acc a q = Some r \<Longrightarrow> 0 \<le> a \<Longrightarrow> 0 \<le> r \<and> r < (a + 1) * 32 ^ length q"
proof (induction q arbitrary: a)
  case Nil
  then show ?case by simp
next
  case (Cons c q)
  from Cons.prems obtain v where v: "b32rev c = Some v"
    and rest: "quantum_acc (a * 32 + v) q = Some r"
    by (auto split: option.splits)
  from b32rev_bounds[OF v] Cons.prems have nonneg: "0 \<le> a * 32 + v" by simp
  from Cons.IH[OF rest nonneg] have r: "0 \<le> r" "r < (a * 32 + v + 1) * 32 ^ length q"
    by simp_all
  from b32rev_bounds[OF v] have "a * 32 + v + 1 \<le> (a + 1) * 32" by simp
  then have "(a * 32 + v + 1) * 32 ^ length q \<le> (a + 1) * 32 * 32 ^ length q"
    by (rule mult_right_mono) simp
  with r(2) have lt: "r < (a + 1) * 32 * 32 ^ length q"
    by (rule less_le_trans)
  have eq: "(a + 1) * 32 * 32 ^ length q = (a + 1) * 32 ^ length (c # q)"
    by simp
  from lt r(1) show ?case
    unfolding eq by blast
qed

lemma quantum_acc_0_bounds:
  "quantum_acc 0 q = Some r \<Longrightarrow> 0 \<le> r \<and> r < 32 ^ length q"
  using quantum_acc_bounds[of 0 q r] by simp

lemma to_bytes5_ok:
  "0 \<le> r \<Longrightarrow> r < 32 ^ 8 \<Longrightarrow> \<exists>bs. to_bytes5 r = Inr bs \<and> length bs = 5"
  by (simp add: to_bytes5_def)

lemma quanta_lengths: "list_all (\<lambda>q. length q \<le> 8) (quanta s)"
proof (induction s rule: quanta.induct)
  case (1 s)
  then show ?case by (subst quanta.simps) auto
qed

lemma decode_quanta_error:
  "decode_quanta qs decoded a = Inl e \<Longrightarrow> list_all (\<lambda>q. length q \<le> 8) qs
   \<Longrightarrow> \<exists>msg. e = ValueError msg"
proof (induction qs arbitrary: decoded a)
  case Nil
  then show ?case by simp
next
  case (Cons q qs)
  show ?case
  proof (cases "quantum_acc 0 q")
    case None
    with Cons.prems show ?thesis by auto
  next
    case (Some r)
    from quantum_acc_0_bounds[OF Some] Cons.prems(2)
    have "0 \<le> r" and "r < 32 ^ length q" and "length q \<le> 8" by simp_all
    moreover have "(32::int) ^ length q \<le> 32 ^ 8"
      using \<open>length q \<le> 8\<close> by (intro power_increasing) simp_all
    ultimately obtain bs where bs: "to_bytes5 r = Inr bs"
      using to_bytes5_ok[of r] by fastforce
    from Cons.prems Some bs have "decode_quanta qs (decoded @ bs) r = Inl e"
      and "list_all (\<lambda>q. length q \<le> 8) qs" by simp_all
    then show ?thesis by (rule Cons.IH)
  qed
qed

text \<open>The \<open>acc\<close> left by the loop is that of the last quantum.\<close>

lemma decode_quanta_last_acc:
  "decode_quanta (quanta s) decoded a = Inr (decoded', acc) \<Longrightarrow> s \<noteq> [] \<Longrightarrow>
     0 \<le> acc \<and> acc < 32 ^ (if length s mod 8 = 0 then 8 else length s mod 8)"
proof (induction s arbitrary: decoded a rule: quanta.induct)
  case (1 s)
  from "1.prems"(2) have unfold: "quanta s = take 8 s # quanta (drop 8 s)"
    by (subst quanta.simps) simp
  from "1.prems"(1) unfold obtain r bs where r: "quantum_acc 0 (take 8 s) = Some r"
    and bs: "to_bytes5 r = Inr bs"
    and rest: "decode_quanta (quanta (drop 8 s)) (decoded @ bs) r = Inr (decoded', acc)"
    by (auto split: option.splits sum.splits)
  show ?case
  proof (cases "drop 8 s = []")
    case True
    then have len: "length s \<le> 8" by simp
    from True rest have "acc = r" by (subst (asm) quanta.simps) simp
    moreover from quantum_acc_0_bounds[OF r] len
    have "0 \<le> r" "r < 32 ^ length s" by simp_all
    moreover from len "1.prems"(2)
    have "(if length s mod 8 = 0 then 8 else length s mod 8) = length s"
      by (cases "length s = 8") auto
    ultimately show ?thesis by simp
  next
    case False
    then have "length s > 8" by simp
    then have "(length s - 8) mod 8 = length s mod 8"
      by (simp add: mod_if le_mod_geq)
    with "1.IH"[OF "1.prems"(2) rest False] show ?thesis
      by (auto split: if_splits)
  qed
qed

lemma decode_quanta_Nil: "decode_quanta (quanta []) decoded a = Inr (decoded, a)"
  by (subst quanta.simps) simp

lemma length_rstrip_pad: "length (rstrip_pad s) \<le> length s"
  using length_dropWhile_le[of "\<lambda>c. c = CHR ''=''" "rev s"] by (simp add: rstrip_pad_def)

lemma stripped_length_mod:
  fixes n t :: nat
  assumes "t \<le> n" "n mod 8 = 0" "0 < t"
    and "n - t = 1 \<or> n - t = 3 \<or> n - t = 4 \<or> n - t = 6"
  shows "t mod 8 = 8 - (n - t)"
proof -
  from assms(2) obtain k where k: "n = 8 * k" by auto
  from assms(1,3,4) k have "k > 0" by auto
  then obtain k' where k': "k = Suc k'" by (cases k) auto
  from assms(4) show ?thesis
  proof (elim disjE)
    assume p: "n - t = 1"
    with assms(1) k k' have "t = 8 * k' + 7" by simp
    then have "t mod 8 = 7" by presburger
    with p show ?thesis by simp
  next
    assume p: "n - t = 3"
    with assms(1) k k' have "t = 8 * k' + 5" by simp
    then have "t mod 8 = 5" by presburger
    with p show ?thesis by simp
  next
    assume p: "n - t = 4"
    with assms(1) k k' have "t = 8 * k' + 4" by simp
    then have "t mod 8 = 4" by presburger
    with p show ?thesis by simp
  next
    assume p: "n - t = 6"
    with assms(1) k k' have "t = 8 * k' + 2" by simp
    then have "t mod 8 = 2" by presburger
    with p show ?thesis by simp
  qed
qed

lemma b32decode_error:
  assumes "b32decode s = Inl e"
  shows "\<exists>msg. e = ValueError msg"
proof (cases "list_all (\<lambda>c. (of_char c :: nat) < 128) s \<and> length s mod 8 = 0")
  case False
  with assms show ?thesis by (auto simp: b32decode_def split: if_splits)
next
  case True
  let ?st = "rstrip_pad s"
  let ?p = "length s - length ?st"
  show ?thesis
  proof (cases "decode_quanta (quanta ?st) [] 0")
    case (Inl e')
    with assms True have "e = e'" by (simp add: b32decode_def Let_def)
    with decode_quanta_error[OF Inl quanta_lengths] show ?thesis by simp
  next
    case (Inr res)
    obtain decoded acc where res: "res = (decoded, acc)" by (cases res)
    show ?thesis
    proof (cases "?p \<in> {0, 1, 3, 4, 6} \<and> ?p \<noteq> 0 \<and> decoded \<noteq> []")
      case False
      with assms True Inr res show ?thesis
        by (auto simp: b32decode_def Let_def split: if_splits)
    next
      case p: True
      have st: "?st \<noteq> []"
      proof
        assume "?st = []"
        with Inr res have "decoded = []" by (simp add: decode_quanta_Nil)
        with p show False by simp
      qed
      from p have p_cases: "?p = 1 \<or> ?p = 3 \<or> ?p = 4 \<or> ?p = 6" by auto
      from True have l8: "length s mod 8 = 0" by simp
      from st have pos: "length ?st > 0" by simp
      from stripped_length_mod[OF length_rstrip_pad l8 pos p_cases]
      have md: "length ?st mod 8 = 8 - ?p" .
      with p_cases have "length ?st mod 8 \<noteq> 0" by auto
      with md have k: "(if length ?st mod 8 = 0 then 8 else length ?st mod 8) = 8 - ?p"
        by simp
      from decode_quanta_last_acc[of ?st "[]" 0 decoded acc, OF _ st] Inr res
      have "0 \<le> acc \<and> acc < 32 ^ (if length ?st mod 8 = 0 then 8 else length ?st mod 8)"
        by simp
      then have acc: "0 \<le> acc" "acc < 32 ^ (8 - ?p)"
        unfolding k by simp_all
      have two: "(2::int) ^ (5 * ?p) = 32 ^ ?p"
        by (simp add: power_mult)
      from p_cases have "8 - ?p + ?p = 8" by auto
      then have "(32::int) ^ (8 - ?p) * 32 ^ ?p = 32 ^ 8"
        by (simp add: power_add[symmetric] del: power_add)
      moreover from acc(2) have "acc * 32 ^ ?p < 32 ^ (8 - ?p) * 32 ^ ?p"
        by (rule mult_strict_right_mono) simp
      ultimately have "acc * 2 ^ (5 * ?p) < 32 ^ 8"
        unfolding two by simp
      moreover from acc have "0 \<le> acc * 2 ^ (5 * ?p)" by simp
      ultimately obtain bs where "to_bytes5 (acc * 2 ^ (5 * ?p)) = Inr bs"
        using to_bytes5_ok by blast
      with assms True Inr res p show ?thesis
        by (auto simp: b32decode_def Let_def split: if_splits)
    qed
  qed
qed


subsection \<open>Decoding an address\<close>

text \<open>
  A string of 58 characters, padded with six \<open>=\<close>, decodes exactly when all its
  characters are of the base32 alphabet, and then to 36 bytes.
\<close>

lemma index_of_Some_iff: "(\<exists>v. index_of c xs = Some v) \<longleftrightarrow> c \<in> set xs"
  by (induction xs) auto

lemma b32rev_Some_iff: "(\<exists>v. b32rev c = Some v) \<longleftrightarrow> c \<in> set b32_alphabet"
  by (simp add: b32rev_def index_of_Some_iff)

lemma quantum_acc_Some_iff:
  "(\<exists>r. quantum_acc a q = Some r) \<longleftrightarrow> set q \<subseteq> set b32_alphabet"
proof (induction q arbitrary: a)
  case Nil
  then show ?case by simp
next
  case (Cons c q)
  show ?case
  proof (cases "b32rev c")
    case None
    with b32rev_Some_iff[of c] show ?thesis by auto
  next
    case (Some v)
    with b32rev_Some_iff[of c] have "c \<in> set b32_alphabet" by auto
    with Some Cons.IH[of "a * 32 + v"] show ?thesis by simp
  qed
qed

lemma concat_quanta: "concat (quanta s) = s"
proof (induction s rule: quanta.induct)
  case (1 s)
  then show ?case by (subst quanta.simps) auto
qed

lemma length_quanta: "length (quanta s) = (length s + 7) div 8"
proof (induction s rule: quanta.induct)
  case (1 s)
  show ?case
  proof (cases "s = []")
    case True
    then show ?thesis by (subst quanta.simps) simp
  next
    case False
    note \<open>s \<noteq> []\<close>
    have "quanta s = take 8 s # quanta (drop 8 s)"
      using False by (subst quanta.simps) simp
    with "1.IH"[OF False] have "length (quanta s) = Suc ((length s - 8 + 7) div 8)"
      by simp
    also have "\<dots> = (length s + 7) div 8"
    proof (cases "length s < 8")
      case True
      from \<open>s \<noteq> []\<close> have "Suc 0 \<le> length s" by (cases s) simp_all
      with True have "(length s + 7) div 8 = 1"
        by (intro div_nat_eqI) simp_all
      with True show ?thesis by simp
    next
      case False
      then have "length s + 7 = (length s - 8 + 7) + 8" by simp
      then have "(length s + 7) div 8 = (length s - 8 + 7) div 8 + 1"
        by (metis div_add_self2 zero_neq_numeral)
      then show ?thesis by simp
    qed
    finally show ?thesis .
  qed
qed

lemma decode_quanta_Inr:
  "decode_quanta qs decoded a = Inr (decoded', acc) \<Longrightarrow>
     set (concat qs) \<subseteq> set b32_alphabet \<and> length decoded' = length decoded + 5 * length qs"
proof (induction qs arbitrary: decoded a)
  case Nil
  then show ?case by simp
next
  case (Cons q qs)
  from Cons.prems obtain r bs where r: "quantum_acc 0 q = Some r"
    and bs: "to_bytes5 r = Inr bs"
    and rest: "decode_quanta qs (decoded @ bs) r = Inr (decoded', acc)"
    by (auto split: option.splits sum.splits)
  from bs have "length bs = 5" by (auto simp: to_bytes5_def split: if_splits)
  moreover from r quantum_acc_Some_iff[of 0 q] have "set q \<subseteq> set b32_alphabet" by blast
  ultimately show ?case using Cons.IH[OF rest] by simp
qed

lemma decode_quanta_total:
  "set (concat qs) \<subseteq> set b32_alphabet \<Longrightarrow> list_all (\<lambda>q. length q \<le> 8) qs \<Longrightarrow>
     \<exists>decoded' acc. decode_quanta qs decoded a = Inr (decoded', acc)"
proof (induction qs arbitrary: decoded a)
  case Nil
  then show ?case by simp
next
  case (Cons q qs)
  from Cons.prems(1) quantum_acc_Some_iff[of 0 q] obtain r where r: "quantum_acc 0 q = Some r"
    by auto
  from quantum_acc_0_bounds[OF r] Cons.prems(2)
  have "0 \<le> r" and "r < 32 ^ length q" and "length q \<le> 8" by simp_all
  moreover have "(32::int) ^ length q \<le> 32 ^ 8"
    using \<open>length q \<le> 8\<close> by (intro power_increasing) simp_all
  ultimately obtain bs where bs: "to_bytes5 r = Inr bs"
    using to_bytes5_ok[of r] by fastforce
  from Cons.prems have "set (concat qs) \<subseteq> set b32_alphabet"
    and "list_all (\<lambda>q. length q \<le> 8) qs" by simp_all
  from Cons.IH[OF this, of "decoded @ bs" r] r bs show ?case by simp
qed

lemma rstrip_pad_append_pad: "rstrip_pad (s @ ''======'') = rstrip_pad s"
  by (simp add: rstrip_pad_def)

lemma rstrip_pad_id: "CHR ''='' \<notin> set s \<Longrightarrow> rstrip_pad s = s"
  by (cases s rule: rev_cases) (auto simp: rstrip_pad_def)

lemma dropWhile_full: "length (dropWhile P xs) = length xs \<Longrightarrow> dropWhile P xs = xs"
proof (cases xs)
  case Nil
  then show ?thesis by simp
next
  case (Cons x xs')
  assume len: "length (dropWhile P xs) = length xs"
  show ?thesis
  proof (cases "P x")
    case True
    with Cons len have "length (dropWhile P xs') = Suc (length xs')" by simp
    with length_dropWhile_le[of P xs'] show ?thesis by simp
  next
    case False
    with Cons show ?thesis by simp
  qed
qed

lemma rstrip_pad_full: "length (rstrip_pad s) = length s \<Longrightarrow> rstrip_pad s = s"
  using dropWhile_full[of "\<lambda>c. c = CHR ''=''" "rev s"] by (simp add: rstrip_pad_def)

lemma alphabet_ascii: "c \<in> set b32_alphabet \<Longrightarrow> (of_char c :: nat) < 128"
  by (auto simp: b32_alphabet_def)

lemma pad_not_in_alphabet: "CHR ''='' \<notin> set b32_alphabet"
  by (simp add: b32_alphabet_def)


lemma to_bytes5_length: "to_bytes5 r = Inr bs \<Longrightarrow> length bs = 5"
  by (auto simp: to_bytes5_def split: if_splits)

lemma b32decode_address_unfold:
  assumes "length s = 58"
  shows "b32decode (s @ ''======'') =
     (if \<not> list_all (\<lambda>c. (of_char c :: nat) < 128) s
        then Inl (ValueError ''string argument should contain only ASCII characters'')
      else
        (case decode_quanta (quanta (rstrip_pad s)) [] 0 of
           Inl e \<Rightarrow> Inl e
         | Inr (decoded, acc) \<Rightarrow>
             if 64 - length (rstrip_pad s) \<notin> {0, 1, 3, 4, 6}
               then Inl (ValueError ''Incorrect padding'')
             else if 64 - length (rstrip_pad s) \<noteq> 0 \<and> decoded \<noteq> []
               then (case to_bytes5 (acc * 2 ^ (5 * (64 - length (rstrip_pad s)))) of
                       Inl e \<Rightarrow> Inl e
                     | Inr last_bytes \<Rightarrow>
                         Inr (take (length decoded - 5) decoded
                              @ take ((43 - 5 * (64 - length (rstrip_pad s))) div 8)
                                  last_bytes))
             else Inr decoded))"
  using assms
  by (auto simp: b32decode_def rstrip_pad_append_pad Let_def split: sum.splits)

lemma b32decode_address_Inr:
  assumes len: "length s = 58" and dec: "b32decode (s @ ''======'') = Inr bs"
  shows "set s \<subseteq> set b32_alphabet \<and> length bs = 36"
proof -
  let ?st = "rstrip_pad s"
  let ?p = "64 - length ?st"
  from dec obtain decoded acc where dq: "decode_quanta (quanta ?st) [] 0 = Inr (decoded, acc)"
    and pad: "?p \<in> {0, 1, 3, 4, 6}"
    unfolding b32decode_address_unfold[OF len]
    by (auto split: if_splits sum.splits)
  from length_rstrip_pad[of s] len have "?p \<ge> 6" by simp
  with pad have p6: "?p = 6" by auto
  with length_rstrip_pad[of s] len have "length ?st = length s" by simp
  then have st: "?st = s" by (rule rstrip_pad_full)
  from decode_quanta_Inr[OF dq] st len
  have alpha: "set s \<subseteq> set b32_alphabet" and dlen: "length decoded = 40"
    by (simp_all add: concat_quanta length_quanta)
  from dec dq p6 dlen obtain last_bytes where
    lb: "to_bytes5 (acc * 2 ^ 30) = Inr last_bytes"
    and bs: "bs = take 35 decoded @ take 1 last_bytes"
    unfolding b32decode_address_unfold[OF len]
    by (auto split: if_splits sum.splits)
  from to_bytes5_length[OF lb] dlen bs have "length bs = 36" by simp
  with alpha show ?thesis by simp
qed

lemma b32decode_address_total:
  assumes len: "length s = 58" and alpha: "set s \<subseteq> set b32_alphabet"
  shows "\<exists>bs. b32decode (s @ ''======'') = Inr bs"
proof -
  from alpha pad_not_in_alphabet have "CHR ''='' \<notin> set s" by auto
  then have st: "rstrip_pad s = s" by (rule rstrip_pad_id)
  from alpha have ascii: "list_all (\<lambda>c. (of_char c :: nat) < 128) s"
    by (auto simp: list_all_iff dest: alphabet_ascii)
  from alpha have "set (concat (quanta s)) \<subseteq> set b32_alphabet"
    by (simp add: concat_quanta)
  from decode_quanta_total[OF this quanta_lengths, of "[]" 0]
  obtain decoded acc where dq: "decode_quanta (quanta s) [] 0 = Inr (decoded, acc)"
    by blast
  from decode_quanta_Inr[OF dq] len have dlen: "length decoded = 40"
    by (simp add: length_quanta)
  show ?thesis
  proof (cases "b32decode (s @ ''======'')")
    case (Inr bs)
    then show ?thesis by blast
  next
    case (Inl e)
    from b32decode_error[OF Inl] obtain msg where "e = ValueError msg" ..
    with Inl dq st len ascii dlen show ?thesis
      unfolding b32decode_address_unfold[OF len]
      by (auto simp: to_bytes5_def split: if_splits sum.splits)
  qed
qed

subsection \<open>The validity of an address\<close>

lemma py_slice_last4:
  "py_slice xs (- 4) (int (length xs)) = drop (length xs - 4) xs"
  by (auto simp: py_slice_def Let_def max_def nat_diff_distrib')

lemma six_pad: "replicate 6 (CHR ''='') = ''======''"
  by (simp add: eval_nat_numeral)

text \<open>The test vectors of RFC 4648 for \<open>foobar\<close> and its prefixes.\<close>

lemma b32decode_rfc4648:
  "b32decode [] = Inr []"
  "b32decode ''MY======'' = Inr (map of_char ''f'')"
  "b32decode ''MZXQ===='' = Inr (map of_char ''fo'')"
  "b32decode ''MZXW6==='' = Inr (map of_char ''foo'')"
  "b32decode ''MZXW6YQ='' = Inr (map of_char ''foob'')"
  "b32decode ''MZXW6YTB'' = Inr (map of_char ''fooba'')"
  "b32decode ''MZXW6YTBOI======'' = Inr (map of_char ''foobar'')"
  by code_simp+

text \<open>
  C2. \<open>valid_address\<close> returns, and never raises; it returns \<open>True\<close> exactly when the
  address has 58 characters, the address padded with six \<open>=\<close> decodes as base32 to 36
  bytes, and the last 4 of these are the last 4 bytes of the hash of the first 32; for
  every other string it returns \<open>False\<close>. The decoding succeeds exactly for the strings of
  58 characters of the base32 alphabet. The hash function is a parameter.
\<close>

theorem valid_address_iff:
  "valid_address sha512_256_hash address
   = Inr (length address = 58 \<and>
          (\<exists>address_bytes.
             b32decode (address @ ''======'') = Inr address_bytes \<and>
             length address_bytes = 36 \<and>
             drop 32 address_bytes
               = drop (length (sha512_256_hash (take 32 address_bytes)) - 4)
                   (sha512_256_hash (take 32 address_bytes)))) \<and>
   valid_address sha512_256_hash address
   = Inr (length address = 58 \<and> set address \<subseteq> set b32_alphabet \<and>
          (\<exists>address_bytes.
             b32decode (address @ ''======'') = Inr address_bytes \<and>
             drop 32 address_bytes
               = drop (length (sha512_256_hash (take 32 address_bytes)) - 4)
                   (sha512_256_hash (take 32 address_bytes))))"
proof -
  have first: "valid_address sha512_256_hash address
     = Inr (length address = 58 \<and>
            (\<exists>address_bytes.
               b32decode (address @ ''======'') = Inr address_bytes \<and>
               length address_bytes = 36 \<and>
               drop 32 address_bytes
                 = drop (length (sha512_256_hash (take 32 address_bytes)) - 4)
                     (sha512_256_hash (take 32 address_bytes))))"
  proof (cases "b32decode (address @ ''======'')")
    case (Inl e)
    from b32decode_error[OF Inl] obtain msg where "e = ValueError msg" ..
    with Inl show ?thesis
      by (simp add: valid_address_def valid_base32_def ENCODED_ADDRESS_LENGTH_def six_pad
          Let_def)
  next
    case (Inr address_bytes)
    then show ?thesis
      by (auto simp: valid_address_def valid_base32_def ENCODED_ADDRESS_LENGTH_def
          PUBLIC_KEY_HASH_LENGTH_def ADDRESS_CHECKSUM_LENGTH_def MAX_BYTES_LENGTH_def
          py_slice_last4 six_pad Let_def split: bool.splits)
  qed
  have "(length address = 58 \<and>
          (\<exists>address_bytes.
             b32decode (address @ ''======'') = Inr address_bytes \<and>
             length address_bytes = 36 \<and>
             drop 32 address_bytes
               = drop (length (sha512_256_hash (take 32 address_bytes)) - 4)
                   (sha512_256_hash (take 32 address_bytes))))
        = (length address = 58 \<and> set address \<subseteq> set b32_alphabet \<and>
          (\<exists>address_bytes.
             b32decode (address @ ''======'') = Inr address_bytes \<and>
             drop 32 address_bytes
               = drop (length (sha512_256_hash (take 32 address_bytes)) - 4)
                   (sha512_256_hash (take 32 address_bytes))))"
    using b32decode_address_Inr[of address] by blast
  with first show ?thesis by simp
qed

lemma b32decode_all_A:
  "b32decode (replicate 58 (CHR ''A'') @ ''======'') = Inr (replicate 36 0)"
  by code_simp

theorem valid_address_iff_witness:
  "valid_address (\<lambda>public_key_hash. replicate 32 0) (replicate 58 (CHR ''A'')) = Inr True \<and>
   valid_address (\<lambda>public_key_hash. replicate 32 1) (replicate 58 (CHR ''A'')) = Inr False \<and>
   valid_address (\<lambda>public_key_hash. replicate 32 0) (replicate 57 (CHR ''A'')) = Inr False"
  using valid_address_iff[of "\<lambda>public_key_hash. replicate 32 0" "replicate 58 (CHR ''A'')"]
    valid_address_iff[of "\<lambda>public_key_hash. replicate 32 1" "replicate 58 (CHR ''A'')"]
    valid_address_iff[of "\<lambda>public_key_hash. replicate 32 0" "replicate 57 (CHR ''A'')"]
    b32decode_all_A
  by simp

end
